theory Spec2Isabelle
  imports Main "HOL-Library.Char_ord" "HOL-Library.List_Lexorder" "HOL-Library.Multiset"
begin

section \<open>AscentPro: the data stores and their persistence\<close>

text \<open>
  The program is one Python class, \<open>AscentPro\<close> (src/AscentPro.py), whose attributes
  \<open>team_members\<close>, \<open>skills_data\<close>, \<open>subskills_data\<close> and \<open>meetings\<close> hold
  whatever \<open>json.load\<close> returned, and whose attribute \<open>categories\<close> is built in
  memory only. The stores that come from the JSON document are modelled as values of
  the type \<open>json\<close>: Python is dynamically typed, and \<open>load_data\<close> tests the shape of
  what it read at run time. A Python \<open>dict\<close> is an association list in insertion
  order. Strings are lists of 8-bit characters, so the model covers the Latin-1 part of
  Python's \<open>str\<close>; JSON numbers with a fraction are left out of the type.
\<close>

subsection \<open>Python values\<close>

datatype json =
    JNull
  | JBool bool
  | JInt int
  | JStr string
  | JArr "json list"
  | JObj "(string \<times> json) list"

datatype error =
    KeyError
  | TypeError
  | AttributeError
  | ValueError
  | StopIteration
  | OSError
  | OutsideModel

text \<open>
  The first six are Python's exceptions. \<open>OutsideModel\<close> is not one: it marks an
  input on which the model does not follow Python (\<open>sorted_meetings\<close> below).
\<close>

text \<open>\<open>d[k] = v\<close> on a dict: an existing key keeps its position, a new key goes last.\<close>

fun dict_set :: "'k \<Rightarrow> 'v \<Rightarrow> ('k \<times> 'v) list \<Rightarrow> ('k \<times> 'v) list" where
  "dict_set k v [] = [(k, v)]"
| "dict_set k v ((k', v') # rest) =
     (if k' = k then (k, v) # rest else (k', v') # dict_set k v rest)"

text \<open>\<open>d.get(k, default)\<close> on a dict.\<close>

definition dict_get :: "('k \<times> 'v) list \<Rightarrow> 'k \<Rightarrow> 'v \<Rightarrow> 'v" where
  "dict_get d k dflt = (case map_of d k of Some v \<Rightarrow> v | None \<Rightarrow> dflt)"

text \<open>\<open>del d[k]\<close> on a dict: \<open>KeyError\<close> when the key is absent.\<close>

definition dict_del :: "'k \<Rightarrow> ('k \<times> 'v) list \<Rightarrow> error + ('k \<times> 'v) list" where
  "dict_del k d =
     (if k \<in> fst ` set d then Inr (filter (\<lambda>kv. fst kv \<noteq> k) d) else Inl KeyError)"

text \<open>\<open>v[k]\<close> with a string key: only a dict can be indexed by a string.\<close>

definition getitem :: "json \<Rightarrow> string \<Rightarrow> error + json" where
  "getitem v k =
     (case v of
        JObj d \<Rightarrow> (case map_of d k of Some x \<Rightarrow> Inr x | None \<Rightarrow> Inl KeyError)
      | _ \<Rightarrow> Inl TypeError)"

text \<open>
  \<open>for x in v\<close>: a list yields its elements, a string its characters (each a string
  of length one), a dict its keys; \<open>None\<close>, booleans and integers raise \<open>TypeError\<close>.
\<close>

fun py_iter :: "json \<Rightarrow> error + json list" where
  "py_iter (JArr xs) = Inr xs"
| "py_iter (JStr s) = Inr (map (\<lambda>c. JStr [c]) s)"
| "py_iter (JObj d) = Inr (map (\<lambda>kv. JStr (fst kv)) d)"
| "py_iter JNull = Inl TypeError"
| "py_iter (JBool b) = Inl TypeError"
| "py_iter (JInt i) = Inl TypeError"

subsection \<open>The application state\<close>

text \<open>
  \<open>categories\<close> is only ever assigned dicts of dicts of lists of strings
  (\<open>initialize_data_structures\<close>, \<open>add_category\<close>, \<open>add_subskills_to_category\<close>,
  \<open>upload_skills_csv\<close>) and is never read from a file, so it carries that type.
\<close>

type_synonym taxonomy = "(string \<times> (string \<times> string list) list) list"

record app =
  team_members :: json
  skills_data :: json
  subskills_data :: json
  meetings :: json
  categories :: taxonomy

text \<open>
  \<open>initialize_data_structures\<close> (lines 109-124) assigns \<open>team_members\<close>,
  \<open>skills_data\<close> and \<open>categories\<close>. The attributes \<open>subskills_data\<close> and
  \<open>meetings\<close> do not exist yet at that point; \<open>load_data\<close>, which \<open>__init__\<close> calls
  next, assigns both on every path, so the placeholder \<open>JNull\<close> is never read
  (lemma \<open>load_data_overwrites\<close>).
\<close>

definition initialize_data_structures :: app where
  "initialize_data_structures =
     \<lparr> team_members = JObj [],
       skills_data = JObj [(''Technical Skills'', JArr []), (''Soft Skills'', JArr []),
                           (''Software Skills'', JArr []), (''Certifications'', JArr [])],
       subskills_data = JNull,
       meetings = JNull,
       categories = [(''Technical Skills'', []), (''Soft Skills'', []),
                     (''Software Skills'', []), (''Certifications'', [])] \<rparr>"

definition empty_skills_data :: json where
  "empty_skills_data =
     JObj [(''Technical Skills'', JObj []), (''Soft Skills'', JObj []),
           (''Software Skills'', JArr []), (''Certifications'', JArr [])]"

definition empty_subskills_data :: json where
  "empty_subskills_data = JObj [(''Technical Skills'', JObj []), (''Soft Skills'', JObj [])]"

definition initialize_empty_data :: "app \<Rightarrow> app" where
  "initialize_empty_data s =
     s\<lparr> team_members := JObj [],
        skills_data := empty_skills_data,
        subskills_data := empty_subskills_data,
        meetings := JArr [] \<rparr>"

subsection \<open>Loading, with the migration of the old skill format\<close>

text \<open>
  \<open>f"{category}: {skill}"\<close> (line 188). \<open>category\<close> is a dict key, hence a string. A
  \<open>skill\<close> that is a string is inserted as it is; for any other value Python inserts
  \<open>format(skill)\<close>, which is the parameter \<open>fmt\<close> of the model.
\<close>

definition fstring_skill :: "(json \<Rightarrow> string) \<Rightarrow> string \<Rightarrow> json \<Rightarrow> string" where
  "fstring_skill fmt category skill =
     category @ '': '' @ (case skill of JStr t \<Rightarrow> t | _ \<Rightarrow> fmt skill)"

text \<open>
  The two nested loops of lines 186-188 over \<open>member[skill_type].items()\<close>,
  collecting \<open>new_skills\<close>.
\<close>

fun convert_old_format :: "(json \<Rightarrow> string) \<Rightarrow> (string \<times> json) list \<Rightarrow> error + json list" where
  "convert_old_format fmt [] = Inr []"
| "convert_old_format fmt ((category, skills) # rest) =
     (case py_iter skills of
        Inl e \<Rightarrow> Inl e
      | Inr ss \<Rightarrow>
          (case convert_old_format fmt rest of
             Inl e \<Rightarrow> Inl e
           | Inr later \<Rightarrow> Inr (map (\<lambda>skill. JStr (fstring_skill fmt category skill)) ss @ later)))"

text \<open>
  Lines 184-189 for one member and one \<open>skill_type\<close>. \<open>member.get\<close> exists only on a
  dict (\<open>AttributeError\<close> otherwise); a field that is a dict is replaced, any other
  field (or a missing one) is left alone.
\<close>

definition migrate_skill_type :: "(json \<Rightarrow> string) \<Rightarrow> string \<Rightarrow> json \<Rightarrow> error + json" where
  "migrate_skill_type fmt skill_type member =
     (case member of
        JObj attrs \<Rightarrow>
          (case map_of attrs skill_type of
             Some (JObj old) \<Rightarrow>
               (case convert_old_format fmt old of
                  Inl e \<Rightarrow> Inl e
                | Inr new_skills \<Rightarrow> Inr (JObj (dict_set skill_type (JArr new_skills) attrs)))
           | _ \<Rightarrow> Inr member)
      | _ \<Rightarrow> Inl AttributeError)"

definition migrate_member :: "(json \<Rightarrow> string) \<Rightarrow> json \<Rightarrow> error + json" where
  "migrate_member fmt member =
     (case migrate_skill_type fmt ''technical_skills'' member of
        Inl e \<Rightarrow> Inl e
      | Inr member' \<Rightarrow> migrate_skill_type fmt ''soft_skills'' member')"

text \<open>The loop of line 182 over \<open>self.team_members.values()\<close>.\<close>

fun migrate_members :: "(json \<Rightarrow> string) \<Rightarrow> (string \<times> json) list \<Rightarrow> error + (string \<times> json) list" where
  "migrate_members fmt [] = Inr []"
| "migrate_members fmt ((name, member) # rest) =
     (case migrate_member fmt member of
        Inl e \<Rightarrow> Inl e
      | Inr member' \<Rightarrow>
          (case migrate_members fmt rest of
             Inl e \<Rightarrow> Inl e
           | Inr rest' \<Rightarrow> Inr ((name, member') # rest')))"

text \<open>
  The body of the \<open>with\<close> block of \<open>load_data\<close> (lines 168-189) on the value \<open>data\<close>
  that \<open>json.load\<close> returned: the four \<open>data.get\<close> calls with their defaults, then
  the migration. The result is the four stores, or the exception raised.
\<close>

definition load_document :: "(json \<Rightarrow> string) \<Rightarrow> json \<Rightarrow> error + (json \<times> json \<times> json \<times> json)" where
  "load_document fmt data =
     (case data of
        JObj doc \<Rightarrow>
          (let tm = dict_get doc ''team_members'' (JObj []);
               sd = dict_get doc ''skills_data'' empty_skills_data;
               ssd = dict_get doc ''subskills_data'' empty_subskills_data;
               ms = dict_get doc ''meetings'' (JArr [])
           in case tm of
                JObj members \<Rightarrow>
                  (case migrate_members fmt members of
                     Inl e \<Rightarrow> Inl e
                   | Inr members' \<Rightarrow> Inr (JObj members', sd, ssd, ms))
              | _ \<Rightarrow> Inl AttributeError)
      | _ \<Rightarrow> Inl AttributeError)"

text \<open>
  What \<open>open\<close> and \<open>json.load\<close> make of the data file: it is missing, it is not
  JSON, or it parses to a value.
\<close>

datatype data_file = FileNotFound | JSONDecodeError | Parsed json

text \<open>
  \<open>load_data\<close> (lines 164-199). Each of the three \<open>except\<close> clauses calls
  \<open>initialize_empty_data\<close>; the last one catches every exception of the migration.
\<close>

definition load_data :: "(json \<Rightarrow> string) \<Rightarrow> data_file \<Rightarrow> app \<Rightarrow> app" where
  "load_data fmt file s =
     (case file of
        FileNotFound \<Rightarrow> initialize_empty_data s
      | JSONDecodeError \<Rightarrow> initialize_empty_data s
      | Parsed data \<Rightarrow>
          (case load_document fmt data of
             Inl e \<Rightarrow> initialize_empty_data s
           | Inr (tm, sd, ssd, ms) \<Rightarrow>
               s\<lparr> team_members := tm, skills_data := sd, subskills_data := ssd,
                  meetings := ms \<rparr>))"

text \<open>
  \<open>save_data\<close> (lines 216-229): the value handed to \<open>json.dump\<close>. Writing that value
  as text and reading it back is the work of Python's \<open>json\<close> module; the model
  keeps the value itself as the content of the file.
\<close>

definition save_data :: "app \<Rightarrow> json" where
  "save_data s =
     JObj [(''team_members'', team_members s),
           (''skills_data'', skills_data s),
           (''subskills_data'', subskills_data s),
           (''meetings'', meetings s)]"

subsection \<open>Startup: the constructor\<close>

text \<open>
  \<open>__init__\<close> (lines 35-107) runs, in this order, \<open>initialize_data_structures\<close>, the
  assignments of lines 59-70, \<open>initialize_ui_components\<close>, \<open>load_config\<close>,
  \<open>load_data\<close>, \<open>create_widgets\<close> and \<open>refresh_member_dropdown\<close>; an exception of
  any of them is logged and raised again (line 107). Besides the stores the model keeps
  the two dicts \<open>self.category_vars\<close> and \<open>self.subskill_vars\<close>, as the list of their
  keys: the widget code looks the skill type up in them.
\<close>

record ui =
  category_vars :: "string list"
  subskill_vars :: "string list"

text \<open>
  Lines 59-70 give both dicts a variable for each of the four families;
  \<open>initialize_ui_components\<close> (lines 126-137), which \<open>__init__\<close> calls after them,
  assigns \<open>{}\<close> to both.
\<close>

definition family_vars :: ui where
  "family_vars =
     \<lparr> category_vars = [''Technical Skills'', ''Soft Skills'', ''Software Skills'',
                         ''Certifications''],
       subskill_vars = [''Technical Skills'', ''Soft Skills'', ''Software Skills'',
                         ''Certifications''] \<rparr>"

definition initialize_ui_components :: "ui \<Rightarrow> ui" where
  "initialize_ui_components u = u\<lparr> category_vars := [], subskill_vars := [] \<rparr>"

text \<open>
  \<open>refresh_team_list\<close> (lines 801-808), which \<open>create_team_members_tab\<close> ends with:
  \<open>self.team_members.items()\<close> and \<open>data.get\<close> exist only on a dict. It assigns
  nothing; the result is the exception raised, if any.
\<close>

definition refresh_team_list :: "app \<Rightarrow> error option" where
  "refresh_team_list s =
     (case team_members s of
        JObj members \<Rightarrow>
          (if list_all (\<lambda>nm. case snd nm of JObj attrs \<Rightarrow> True | _ \<Rightarrow> False) members
           then None else Some AttributeError)
      | _ \<Rightarrow> Some AttributeError)"

text \<open>
  \<open>populate_skill_dropdowns\<close> (lines 988-1017), the last call of
  \<open>create_skill_section\<close>: it adds a missing family to \<open>subskills_data\<close>; any
  exception in it is caught at line 1015.
\<close>

definition populate_skill_dropdowns :: "string \<Rightarrow> app \<Rightarrow> app" where
  "populate_skill_dropdowns skill_type s =
     (if skill_type \<in> {''Technical Skills'', ''Soft Skills'', ''Software Skills''} then
        (case subskills_data s of
           JObj d \<Rightarrow>
             (if skill_type \<in> fst ` set d then s
              else s\<lparr> subskills_data := JObj (dict_set skill_type (JObj []) d) \<rparr>)
         | _ \<Rightarrow> s)
      else s)"

text \<open>
  \<open>create_skill_section\<close> (lines 437-490). For the three families of line 445 the
  comboboxes are built on \<open>self.category_vars[skill_type]\<close> (line 449) and
  \<open>self.subskill_vars[skill_type]\<close> (line 454), for any other skill type on
  \<open>self.category_vars[skill_type]\<close> (line 465): a skill type that is not a key raises
  \<open>KeyError\<close>. \<open>populate_category_dropdowns\<close> (lines 621-648) assigns no store and
  catches its exceptions. The result is the exception raised, if any, and the state.
\<close>

definition create_skill_section :: "string \<Rightarrow> ui \<Rightarrow> app \<Rightarrow> error option \<times> app" where
  "create_skill_section skill_type u s =
     (if skill_type \<in> {''Technical Skills'', ''Soft Skills'', ''Software Skills''} then
        (if skill_type \<in> set (category_vars u) then
           (if skill_type \<in> set (subskill_vars u) then
              (None, populate_skill_dropdowns skill_type s)
            else (Some KeyError, s))
         else (Some KeyError, s))
      else
        (if skill_type \<in> set (category_vars u) then
           (None, populate_skill_dropdowns skill_type s)
         else (Some KeyError, s)))"

text \<open>
  \<open>create_member_details_tab\<close> (lines 315-435): of its statements only the three
  calls of lines 404-406 touch the stores or the two dicts.
\<close>

definition create_member_details_tab :: "ui \<Rightarrow> app \<Rightarrow> error option \<times> app" where
  "create_member_details_tab u s =
     (case create_skill_section ''Technical Skills'' u s of
        (Some e, s1) \<Rightarrow> (Some e, s1)
      | (None, s1) \<Rightarrow>
          (case create_skill_section ''Soft Skills'' u s1 of
             (Some e, s2) \<Rightarrow> (Some e, s2)
           | (None, s2) \<Rightarrow> create_skill_section ''Certifications'' u s2))"

text \<open>
  \<open>create_widgets\<close> (lines 249-285): \<open>create_team_members_tab\<close>,
  \<open>create_member_details_tab\<close>, \<open>create_skills_management_tab\<close>,
  \<open>create_meetings_tab\<close>, and then \<open>self.meetings = []\<close> (line 285). The third and the
  fourth assign none of the stores; they read them, and the exceptions they can raise on
  stores of another shape are not modelled.
\<close>

definition create_widgets :: "ui \<Rightarrow> app \<Rightarrow> error option \<times> app" where
  "create_widgets u s =
     (case refresh_team_list s of
        Some e \<Rightarrow> (Some e, s)
      | None \<Rightarrow>
          (case create_member_details_tab u s of
             (Some e, s') \<Rightarrow> (Some e, s')
           | (None, s') \<Rightarrow> (None, s'\<lparr> meetings := JArr [] \<rparr>)))"

text \<open>
  \<open>__init__\<close>, from line 55 on: the exception with which it ends, if any, and the
  stores at that moment. \<open>load_config\<close> reads the configuration file and sets the size
  of the window; it is left out, and so is \<open>refresh_member_dropdown\<close> (line 100), which
  assigns no store.
\<close>

definition init :: "(json \<Rightarrow> string) \<Rightarrow> data_file \<Rightarrow> error option \<times> app" where
  "init fmt file =
     create_widgets (initialize_ui_components family_vars)
       (load_data fmt file initialize_data_structures)"

subsection \<open>Strings\<close>

text \<open>
  \<open>str.isspace\<close> on the Latin-1 code points: TAB to CR, FS to US, the space, NEL and
  the no-break space.
\<close>

definition py_isspace :: "char \<Rightarrow> bool" where
  "py_isspace c = ((of_char c :: nat) \<in> {9, 10, 11, 12, 13, 28, 29, 30, 31, 32, 133, 160})"

definition strip :: "string \<Rightarrow> string" where
  "strip t = rev (dropWhile py_isspace (rev (dropWhile py_isspace t)))"

text \<open>\<open>t.split(sep)\<close> for a separator of one character: never an empty list.\<close>

fun split_on :: "char \<Rightarrow> string \<Rightarrow> string list" where
  "split_on sep [] = [[]]"
| "split_on sep (c # cs) =
     (if c = sep then [] # split_on sep cs
      else (case split_on sep cs of
              [] \<Rightarrow> [[c]]
            | w # ws \<Rightarrow> (c # w) # ws))"


text \<open>\<open>t.lower()\<close> on Latin-1: A to Z, and the capital letters from 192 to 222 but 215.\<close>

definition py_lower :: "char \<Rightarrow> char" where
  "py_lower c =
     (let n = (of_char c :: nat)
      in if (65 \<le> n \<and> n \<le> 90) \<or> (192 \<le> n \<and> n \<le> 222 \<and> n \<noteq> 215)
         then char_of (n + 32) else c)"

text \<open>\<open>skill_type.lower().replace(' ', '_')\<close>, the member's key for a skill family.\<close>

definition skill_key :: "string \<Rightarrow> string" where
  "skill_key skill_type = map (\<lambda>c. if c = CHR '' '' then CHR ''_'' else c) (map py_lower skill_type)"

text \<open>\<open>x in t\<close> for two strings: \<open>x\<close> occurs in \<open>t\<close> as a contiguous part.\<close>

fun is_substring :: "string \<Rightarrow> string \<Rightarrow> bool" where
  "is_substring x [] = (x = [])"
| "is_substring x (c # cs) = (take (length x) (c # cs) = x \<or> is_substring x cs)"

text \<open>
  \<open>x in v\<close> for a string \<open>x\<close>: an element of a list equal to it, a part of a string,
  a key of a dict; \<open>TypeError\<close> for \<open>None\<close>, booleans and integers.
\<close>

definition str_in :: "string \<Rightarrow> json \<Rightarrow> error + bool" where
  "str_in x v =
     (case v of
        JArr xs \<Rightarrow> Inr (JStr x \<in> set xs)
      | JStr t \<Rightarrow> Inr (is_substring x t)
      | JObj d \<Rightarrow> Inr (x \<in> fst ` set d)
      | _ \<Rightarrow> Inl TypeError)"

text \<open>\<open>v.append(x)\<close>: only a list has the method.\<close>

definition py_append :: "json \<Rightarrow> json \<Rightarrow> error + json" where
  "py_append v x = (case v of JArr xs \<Rightarrow> Inr (JArr (xs @ [x])) | _ \<Rightarrow> Inl AttributeError)"

text \<open>
  The store \<open>v\<close> after the object at \<open>v[k1][k2]\<close> has been mutated into \<open>x\<close>. It is
  used only where both lookups have succeeded.
\<close>

definition set_nested :: "json \<Rightarrow> string \<Rightarrow> string \<Rightarrow> json \<Rightarrow> json" where
  "set_nested v k1 k2 x =
     (case v of
        JObj d \<Rightarrow>
          (case map_of d k1 of
             Some (JObj d2) \<Rightarrow> JObj (dict_set k1 (JObj (dict_set k2 x d2)) d)
           | _ \<Rightarrow> v)
      | _ \<Rightarrow> v)"

subsection \<open>Taxonomy operations\<close>

text \<open>
  The operations are methods bound to buttons. What a method reads from a widget or a
  dialog (the selected category, the text of an entry, the answer to a prompt) is an
  argument of its model; the message box it ends with is the first component of the
  result. Every method that changes a store then calls \<open>save_data\<close>, so the data file
  holds \<open>save_data\<close> of the returned state. An exception that the method does not
  catch leaves the method; the state returned with it is the state at that moment.
\<close>

text \<open>
  \<open>add_subskills_to_category\<close> (lines 1183-1197): the prompt is repeated until it is
  cancelled or left empty (the answer \<open>[]\<close>, or the end of the answers); an answer
  is trimmed, and is not added when the list holds it already.
\<close>

fun add_subskills_to_category :: "string list \<Rightarrow> string list \<Rightarrow> string list" where
  "add_subskills_to_category [] subskills = subskills"
| "add_subskills_to_category (answer # answers) subskills =
     (if answer = [] then subskills
      else add_subskills_to_category answers
             (if strip answer \<in> set subskills then subskills else subskills @ [strip answer]))"

datatype add_category_result = NoCategoryName | CategoryExists | CategoryAdded | AddCategoryRaised error

text \<open>\<open>add_category\<close> (lines 1167-1181).\<close>

definition add_category :: "string \<Rightarrow> string \<Rightarrow> string list \<Rightarrow> app \<Rightarrow> add_category_result \<times> app" where
  "add_category skill_type answer subskill_answers s =
     (if answer = [] then (NoCategoryName, s)
      else
        (case map_of (categories s) skill_type of
           None \<Rightarrow> (AddCategoryRaised KeyError, s)
         | Some family \<Rightarrow>
             (if strip answer \<in> fst ` set family then (CategoryExists, s)
              else (CategoryAdded,
                    s\<lparr> categories :=
                         dict_set skill_type
                           (dict_set (strip answer) (add_subskills_to_category subskill_answers []) family)
                           (categories s) \<rparr>))))"

datatype delete_result = SelectCategoryToDelete | NotConfirmed | CategoryDeleted | DeleteRaised error

text \<open>
  \<open>delete_category\<close> (lines 1242-1252); \<open>confirmed\<close> is the answer to
  \<open>messagebox.askyesno\<close>.
\<close>

definition delete_category :: "string \<Rightarrow> string \<Rightarrow> bool \<Rightarrow> app \<Rightarrow> delete_result \<times> app" where
  "delete_category skill_type category confirmed s =
     (if category = [] then (SelectCategoryToDelete, s)
      else if \<not> confirmed then (NotConfirmed, s)
      else
        (case map_of (categories s) skill_type of
           None \<Rightarrow> (DeleteRaised KeyError, s)
         | Some family \<Rightarrow>
             (case dict_del category family of
                Inl e \<Rightarrow> (DeleteRaised e, s)
              | Inr family' \<Rightarrow>
                  (CategoryDeleted, s\<lparr> categories := dict_set skill_type family' (categories s) \<rparr>))))"

text \<open>
  The loop of \<open>add_multiple_subskills\<close> (lines 1213-1219) over the tokens, on the
  object \<open>lst\<close> found at \<open>self.subskills_data[skill_type][category]\<close>. It returns the
  exception that ended it (if any), the object as mutated, the tokens added and the
  tokens for which the "Duplicate" warning was shown.
\<close>

fun subskills_loop :: "string list \<Rightarrow> json \<Rightarrow> string list \<Rightarrow> string list
    \<Rightarrow> error option \<times> json \<times> string list \<times> string list" where
  "subskills_loop [] lst added warned = (None, lst, added, warned)"
| "subskills_loop (subskill # rest) lst added warned =
     (case str_in subskill lst of
        Inl e \<Rightarrow> (Some e, lst, added, warned)
      | Inr True \<Rightarrow> subskills_loop rest lst added (warned @ [subskill])
      | Inr False \<Rightarrow>
          (case py_append lst (JStr subskill) of
             Inl e \<Rightarrow> (Some e, lst, added, warned)
           | Inr lst' \<Rightarrow> subskills_loop rest lst' (added @ [subskill]) warned))"

datatype bulk_result =
    SelectCategoryFirst
  | EnterSubskills
  | AddedSubskills nat
  | NoNewSubskills
  | BulkRaised error

text \<open>
  \<open>add_multiple_subskills\<close> (lines 1199-1227). The result is the closing message (with
  the count it displays), the tokens warned about, and the state. The two lookups
  \<open>self.subskills_data[skill_type][category]\<close> are made in the loop, so they are not
  made when there is no token.
\<close>

definition add_multiple_subskills :: "string \<Rightarrow> string \<Rightarrow> string \<Rightarrow> app
    \<Rightarrow> bulk_result \<times> string list \<times> app" where
  "add_multiple_subskills skill_type category entry s =
     (if category = [] then (SelectCategoryFirst, [], s)
      else if strip entry = [] then (EnterSubskills, [], s)
      else
        (let subskills = filter (\<lambda>t. t \<noteq> []) (map strip (split_on CHR '','' (strip entry)))
         in if subskills = [] then (NoNewSubskills, [], s)
            else
              (case getitem (subskills_data s) skill_type of
                 Inl e \<Rightarrow> (BulkRaised e, [], s)
               | Inr family \<Rightarrow>
                   (case getitem family category of
                      Inl e \<Rightarrow> (BulkRaised e, [], s)
                    | Inr lst \<Rightarrow>
                        (case subskills_loop subskills lst [] [] of
                           (raised, lst', added, warned) \<Rightarrow>
                             ((case raised of
                                 Some e \<Rightarrow> BulkRaised e
                               | None \<Rightarrow> if added \<noteq> [] then AddedSubskills (length added)
                                         else NoNewSubskills),
                              warned,
                              s\<lparr> subskills_data :=
                                   set_nested (subskills_data s) skill_type category lst' \<rparr>))))))"

subsection \<open>The CSV import\<close>

text \<open>
  The input of \<open>upload_skills_csv\<close>: no file was chosen in the dialog, the file could
  not be opened, or \<open>csv.reader\<close> (tab-delimited) yields these rows, the header first.
  Each row is the list of its fields; an empty line is the row \<open>[]\<close>.
\<close>

datatype csv_input = NoFileChosen | OpenFailed | CsvRows "string list list"

datatype csv_result = CsvCancelled | CsvProcessed | CsvFailed error

text \<open>Lines 1658-1659: a row of one field is split again on commas.\<close>

definition resolve_row :: "string list \<Rightarrow> string list" where
  "resolve_row row = (case row of [field] \<Rightarrow> split_on CHR '','' field | _ \<Rightarrow> row)"

text \<open>Lines 1665-1670: the three conditional insertions for one row.\<close>

definition insert_skill :: "string \<Rightarrow> string \<Rightarrow> string \<Rightarrow> taxonomy \<Rightarrow> taxonomy" where
  "insert_skill category subcategory skill cats =
     (let cats1 = (if category \<in> fst ` set cats then cats else dict_set category [] cats);
          family = dict_get cats1 category [];
          family1 = (if subcategory \<in> fst ` set family then family
                     else dict_set subcategory [] family);
          skills = dict_get family1 subcategory [];
          skills1 = (if skill \<in> set skills then skills else skills @ [skill])
      in dict_set category (dict_set subcategory skills1 family1) cats1)"

text \<open>Lines 1658-1670 for one row: \<open>ValueError\<close> unless the row has three fields.\<close>

definition import_row :: "string list \<Rightarrow> taxonomy \<Rightarrow> error + taxonomy" where
  "import_row row cats =
     (if length (resolve_row row) \<noteq> 3 then Inl ValueError
      else
        (case map strip (resolve_row row) of
           [category, subcategory, skill] \<Rightarrow> Inr (insert_skill category subcategory skill cats)
         | _ \<Rightarrow> Inl ValueError))"

text \<open>
  The \<open>for\<close> loop of line 1657: the exception of a row ends it, and what the rows
  before have inserted stays in \<open>self.categories\<close>.
\<close>

fun import_rows :: "string list list \<Rightarrow> taxonomy \<Rightarrow> error option \<times> taxonomy" where
  "import_rows [] cats = (None, cats)"
| "import_rows (row # rows) cats =
     (case import_row row cats of
        Inl e \<Rightarrow> (Some e, cats)
      | Inr cats' \<Rightarrow> import_rows rows cats')"

text \<open>
  \<open>upload_skills_csv\<close> (lines 1648-1676). \<open>next(csv_reader)\<close> skips the header and
  raises \<open>StopIteration\<close> on a file without rows; every exception is caught at line
  1674 and shown as an error.
\<close>

definition upload_skills_csv :: "csv_input \<Rightarrow> app \<Rightarrow> csv_result \<times> app" where
  "upload_skills_csv input s =
     (case input of
        NoFileChosen \<Rightarrow> (CsvCancelled, s)
      | OpenFailed \<Rightarrow> (CsvFailed OSError, s)
      | CsvRows [] \<Rightarrow> (CsvFailed StopIteration, s)
      | CsvRows (header # rows) \<Rightarrow>
          (case import_rows rows (categories s) of
             (Some e, cats) \<Rightarrow> (CsvFailed e, s\<lparr> categories := cats \<rparr>)
           | (None, cats) \<Rightarrow> (CsvProcessed, s\<lparr> categories := cats \<rparr>)))"

subsection \<open>Member operations\<close>

datatype assign_result = SelectMember | SelectSkill | AlreadyInList | SkillAdded | AssignRaised error

text \<open>
  Lines 536-549 of \<open>add_skill_to_member\<close>: the skill string made from the values of
  the variables passed as \<open>*args\<close>. The tuple is unpacked into two names for
  "Technical Skills" and "Soft Skills" and into one name for any other family;
  unpacking a tuple of another length raises \<open>ValueError\<close>.
\<close>

definition compose_skill :: "string \<Rightarrow> string list \<Rightarrow> assign_result + string" where
  "compose_skill skill_type args =
     (if skill_type \<in> {''Technical Skills'', ''Soft Skills''} then
        (case args of
           [category, subskill] \<Rightarrow>
             (if category = [] \<or> subskill = [] then Inl SelectSkill
              else Inr (category @ '': '' @ subskill))
         | _ \<Rightarrow> Inl (AssignRaised ValueError))
      else
        (case args of
           [skill] \<Rightarrow> (if skill = [] then Inl SelectSkill else Inr skill)
         | _ \<Rightarrow> Inl (AssignRaised ValueError)))"

text \<open>
  \<open>add_skill_to_member\<close> (lines 526-558); \<open>member_name\<close> is the value of
  \<open>self.member_var\<close>.
\<close>

definition add_skill_to_member :: "string \<Rightarrow> string \<Rightarrow> string list \<Rightarrow> app \<Rightarrow> assign_result \<times> app" where
  "add_skill_to_member member_name skill_type args s =
     (if member_name = [] then (SelectMember, s)
      else
        (case getitem (team_members s) member_name of
           Inl e \<Rightarrow> (AssignRaised e, s)
         | Inr member \<Rightarrow>
             (case getitem member (skill_key skill_type) of
                Inl e \<Rightarrow> (AssignRaised e, s)
              | Inr skill_list \<Rightarrow>
                  (case compose_skill skill_type args of
                     Inl r \<Rightarrow> (r, s)
                   | Inr skill \<Rightarrow>
                       (case str_in skill skill_list of
                          Inl e \<Rightarrow> (AssignRaised e, s)
                        | Inr True \<Rightarrow> (AlreadyInList, s)
                        | Inr False \<Rightarrow>
                            (case py_append skill_list (JStr skill) of
                               Inl e \<Rightarrow> (AssignRaised e, s)
                             | Inr skill_list' \<Rightarrow>
                                 (SkillAdded,
                                  s\<lparr> team_members :=
                                       set_nested (team_members s) member_name
                                         (skill_key skill_type) skill_list' \<rparr>)))))))"




subsection \<open>The meeting list\<close>

text \<open>
  \<open>sorted(xs, key=..., reverse=True)\<close> on keyed elements: Python's sort is stable, and
  with \<open>reverse=True\<close> elements of equal keys still keep their order. The keys here
  are strings, compared as Python compares \<open>str\<close>: character by character, by code
  point, a proper prefix being smaller.
\<close>

fun insert_desc :: "string \<times> 'a \<Rightarrow> (string \<times> 'a) list \<Rightarrow> (string \<times> 'a) list" where
  "insert_desc x [] = [x]"
| "insert_desc x (y # ys) = (if fst y \<le> fst x then x # y # ys else y # insert_desc x ys)"

definition sorted_reverse :: "(string \<times> 'a) list \<Rightarrow> (string \<times> 'a) list" where
  "sorted_reverse xs = foldr insert_desc xs []"

text \<open>
  The key function \<open>lambda x: x['date']\<close> on every meeting. A date that is not a
  string is outside the model.
\<close>

fun date_keys :: "json list \<Rightarrow> error + (string \<times> json) list" where
  "date_keys [] = Inr []"
| "date_keys (m # ms) =
     (case getitem m ''date'' of
        Inl e \<Rightarrow> Inl e
      | Inr (JStr d) \<Rightarrow>
          (case date_keys ms of
             Inl e \<Rightarrow> Inl e
           | Inr rest \<Rightarrow> Inr ((d, m) # rest))
      | Inr _ \<Rightarrow> Inl OutsideModel)"

text \<open>Line 1562: \<open>sorted(self.meetings, key=lambda x: x['date'], reverse=True)\<close>.\<close>

definition sorted_meetings :: "json \<Rightarrow> error + json list" where
  "sorted_meetings ms =
     (case py_iter ms of
        Inl e \<Rightarrow> Inl e
      | Inr xs \<Rightarrow>
          (case date_keys xs of
             Inl e \<Rightarrow> Inl e
           | Inr keyed \<Rightarrow> Inr (map snd (sorted_reverse keyed))))"

text \<open>Line 1563: \<open>f"{meeting['date']} - {meeting['title']}"\<close> for each meeting.\<close>

fun listbox_lines :: "(json \<Rightarrow> string) \<Rightarrow> json list \<Rightarrow> error + string list" where
  "listbox_lines fmt [] = Inr []"
| "listbox_lines fmt (m # ms) =
     (case getitem m ''date'' of
        Inl e \<Rightarrow> Inl e
      | Inr d \<Rightarrow>
          (case getitem m ''title'' of
             Inl e \<Rightarrow> Inl e
           | Inr t \<Rightarrow>
               (case listbox_lines fmt ms of
                  Inl e \<Rightarrow> Inl e
                | Inr rest \<Rightarrow>
                    Inr (((case d of JStr x \<Rightarrow> x | _ \<Rightarrow> fmt d) @ '' - '' @
                          (case t of JStr x \<Rightarrow> x | _ \<Rightarrow> fmt t)) # rest))))"

text \<open>
  \<open>refresh_meetings_list\<close> (lines 1559-1563): the lines put into the listbox. It
  reads \<open>self.meetings\<close> and assigns nothing.
\<close>

definition refresh_meetings_list :: "(json \<Rightarrow> string) \<Rightarrow> app \<Rightarrow> error + string list" where
  "refresh_meetings_list fmt s =
     (case sorted_meetings (meetings s) of
        Inl e \<Rightarrow> Inl e
      | Inr ms \<Rightarrow> listbox_lines fmt ms)"

subsection \<open>Notions used in the statements\<close>

text \<open>
  The old storage format of a skill field, in the spec's words a nested map
  \<open>{category: [skills...]}\<close>, and the flat list the spec asks for: one
  \<open>"category: skill"\<close> string per skill, categories in stored order, skills in their
  order within the category.
\<close>

definition legacy_json :: "(string \<times> string list) list \<Rightarrow> json" where
  "legacy_json legacy = JObj (map (\<lambda>(c, ss). (c, JArr (map JStr ss))) legacy)"

definition flat_skills :: "(string \<times> string list) list \<Rightarrow> string list" where
  "flat_skills legacy = concat (map (\<lambda>(c, ss). map (\<lambda>t. c @ '': '' @ t) ss) legacy)"

text \<open>
  The members that \<open>load_data\<close> gets through without an exception: objects in which
  a skill field that is a dict maps every category to something a \<open>for\<close> loop can
  run over.
\<close>

fun iterable :: "json \<Rightarrow> bool" where
  "iterable (JArr xs) = True"
| "iterable (JStr t) = True"
| "iterable (JObj d) = True"
| "iterable JNull = False"
| "iterable (JBool b) = False"
| "iterable (JInt i) = False"

definition old_format_ok :: "json option \<Rightarrow> bool" where
  "old_format_ok f =
     (case f of Some (JObj old) \<Rightarrow> list_all (\<lambda>kv. iterable (snd kv)) old | _ \<Rightarrow> True)"

definition member_ok :: "json \<Rightarrow> bool" where
  "member_ok m =
     (case m of
        JObj attrs \<Rightarrow> old_format_ok (map_of attrs ''technical_skills'')
                     \<and> old_format_ok (map_of attrs ''soft_skills'')
      | _ \<Rightarrow> False)"

text \<open>
  A document of the shape the program writes, with one member and two meetings, and the
  state \<open>load_data\<close> makes of it at startup. The meeting entered first is dated
  1 February 2024, the second 2 January 2024.
\<close>

definition example_member :: json where
  "example_member = JObj
     [(''job_title'', JStr ''Engineer''), (''join_date'', JStr ''01/03/2020''),
      (''birthday'', JStr ''05/06/1990''),
      (''technical_skills'', JArr [JStr ''Languages: Python'']), (''soft_skills'', JArr []),
      (''software_skills'', JArr []), (''certifications'', JArr []),
      (''goals'', JArr [JStr ''g1'', JStr ''g2'']), (''development_plan'', JStr []),
      (''hobbies'', JArr []), (''interests'', JArr []), (''family'', JStr []),
      (''achievements'', JArr []), (''issues_concerns'', JStr []),
      (''other_personal_details'', JStr [])]"

definition meeting_feb :: json where
  "meeting_feb = JObj [(''date'', JStr ''01/02/2024''), (''title'', JStr ''Planning''),
     (''highlights'', JStr []), (''notes'', JStr []), (''action_items'', JStr [])]"

definition meeting_jan :: json where
  "meeting_jan = JObj [(''date'', JStr ''02/01/2024''), (''title'', JStr ''Kickoff''),
     (''highlights'', JStr []), (''notes'', JStr []), (''action_items'', JStr [])]"

definition example_document :: json where
  "example_document = JObj
     [(''team_members'', JObj [(''Ann'', example_member)]),
      (''skills_data'', empty_skills_data),
      (''subskills_data'',
         JObj [(''Technical Skills'', JObj [(''Languages'', JArr [JStr ''Python''])]),
               (''Soft Skills'', JObj [])]),
      (''meetings'', JArr [meeting_feb, meeting_jan])]"

definition example_state :: app where
  "example_state = load_data (\<lambda>v. []) (Parsed example_document) initialize_data_structures"

text \<open>
  The member registries on which the migration of \<open>load_data\<close> changes nothing: every
  member is an object, and neither \<open>technical_skills\<close> nor \<open>soft_skills\<close> is a dict.
\<close>

definition member_flat :: "json \<Rightarrow> bool" where
  "member_flat m =
     (case m of
        JObj attrs \<Rightarrow>
          (case map_of attrs ''technical_skills'' of Some (JObj d) \<Rightarrow> False | _ \<Rightarrow> True)
        \<and> (case map_of attrs ''soft_skills'' of Some (JObj d) \<Rightarrow> False | _ \<Rightarrow> True)
      | _ \<Rightarrow> False)"

definition registry_flat :: "json \<Rightarrow> bool" where
  "registry_flat tm =
     (case tm of JObj members \<Rightarrow> list_all (\<lambda>nm. member_flat (snd nm)) members | _ \<Rightarrow> False)"

text \<open>
  That state after \<open>add_category\<close> on the technical skills, the prompt for the name
  answered with "Languages" and the prompts for subskills with "Python", with "Go", and
  then cancelled.
\<close>

definition category_added :: app where
  "category_added =
     snd (add_category ''Technical Skills'' ''Languages'' [''Python'', ''Go''] example_state)"


text \<open>
  A data row of the import resolves to three fields; and the stronger condition in the
  words of the spec, three fields none of which is empty once trimmed.
\<close>

definition three_fields :: "string list \<Rightarrow> bool" where
  "three_fields row = (length (resolve_row row) = 3)"

definition three_nonempty_fields :: "string list \<Rightarrow> bool" where
  "three_nonempty_fields row =
     (length (resolve_row row) = 3 \<and> list_all (\<lambda>f. strip f \<noteq> []) (resolve_row row))"

text \<open>
  The bulk form in the words of the spec: the text is split on commas, each token is
  trimmed, empty tokens are dropped; of the tokens not yet present in the category, each
  is added once, in the order of its first occurrence.
\<close>

definition bulk_tokens :: "string \<Rightarrow> string list" where
  "bulk_tokens entry = filter (\<lambda>t. t \<noteq> []) (map strip (split_on CHR '','' entry))"

function first_occurrences :: "'a list \<Rightarrow> 'a list" where
  "first_occurrences [] = []"
| "first_occurrences (x # xs) = x # first_occurrences (filter (\<lambda>y. y \<noteq> x) xs)"
  by pat_completeness auto
termination
  by (relation "measure length") (auto simp: less_Suc_eq_le)

definition new_subskills :: "json list \<Rightarrow> string list \<Rightarrow> string list" where
  "new_subskills existing tokens =
     first_occurrences (filter (\<lambda>t. JStr t \<notin> set existing) tokens)"

text \<open>An entry with a token that is present already, a repeated token and an empty one.\<close>

definition bulk_entry :: string where
  "bulk_entry = '' Go, Python , ,Go,Rust ''"

text \<open>
  The calendar date that a string \<open>DD/MM/YYYY\<close> stands for, as (year, month, day), and
  the order of calendar dates. This is how the spec reads the date of a meeting (and the
  format that \<open>add_meeting\<close> checks with \<open>datetime.strptime\<close> before it stores the
  string); the ranges of day and month are not checked here.
\<close>

definition digit_value :: "char \<Rightarrow> nat option" where
  "digit_value c =
     (let n = (of_char c :: nat) in if 48 \<le> n \<and> n \<le> 57 then Some (n - 48) else None)"

fun number_from :: "nat \<Rightarrow> string \<Rightarrow> nat option" where
  "number_from acc [] = Some acc"
| "number_from acc (c # cs) =
     (case digit_value c of None \<Rightarrow> None | Some d \<Rightarrow> number_from (10 * acc + d) cs)"

definition number :: "string \<Rightarrow> nat option" where
  "number t = (if t = [] then None else number_from 0 t)"

definition parse_date :: "string \<Rightarrow> (nat \<times> nat \<times> nat) option" where
  "parse_date t =
     (case split_on CHR ''/'' t of
        [d, m, y] \<Rightarrow>
          (case (number d, number m, number y) of
             (Some dd, Some mm, Some yy) \<Rightarrow> Some (yy, mm, dd)
           | _ \<Rightarrow> None)
      | _ \<Rightarrow> None)"

definition earlier :: "nat \<times> nat \<times> nat \<Rightarrow> nat \<times> nat \<times> nat \<Rightarrow> bool" where
  "earlier a b =
     (case a of (y1, m1, d1) \<Rightarrow> case b of (y2, m2, d2) \<Rightarrow>
        y1 < y2 \<or> (y1 = y2 \<and> (m1 < m2 \<or> (m1 = m2 \<and> d1 < d2))))"

section \<open>Properties\<close>

subsection \<open>Dictionaries\<close>

lemma map_of_dict_set: "map_of (dict_set k v d) = (map_of d)(k \<mapsto> v)"
  by (induction d) (auto simp: fun_eq_iff)

lemma keys_dict_set_present: "map_of d k = Some w \<Longrightarrow> map fst (dict_set k v d) = map fst d"
  by (induction d) (auto split: if_splits)

subsection \<open>Migration of the old skill format on load\<close>

lemma convert_old_format_legacy:
  "convert_old_format fmt (map (\<lambda>(c, ss). (c, JArr (map JStr ss))) legacy)
     = Inr (map JStr (flat_skills legacy))"
  by (induction legacy) (auto simp: flat_skills_def fstring_skill_def)

lemma py_iter_iterable: "iterable v \<Longrightarrow> \<exists>xs. py_iter v = Inr xs"
  by (cases v) auto

lemma convert_old_format_ok:
  "list_all (\<lambda>kv. iterable (snd kv)) old \<Longrightarrow> \<exists>new. convert_old_format fmt old = Inr new"
proof (induction old)
  case Nil
  then show ?case by simp
next
  case (Cons kv old)
  obtain c v where kv: "kv = (c, v)" by (cases kv)
  from Cons.prems kv obtain xs where "py_iter v = Inr xs"
    using py_iter_iterable by auto
  moreover from Cons obtain new where "convert_old_format fmt old = Inr new" by auto
  ultimately show ?case using kv by simp
qed

lemma migrate_skill_type_result:
  assumes "migrate_skill_type fmt st (JObj attrs) = Inr m'"
  shows "\<exists>attrs'. m' = JObj attrs' \<and> map fst attrs' = map fst attrs
           \<and> (\<forall>k. k \<noteq> st \<longrightarrow> map_of attrs' k = map_of attrs k)
           \<and> (\<forall>old. map_of attrs st = Some (JObj old) \<longrightarrow>
                  (\<exists>new. convert_old_format fmt old = Inr new \<and> map_of attrs' st = Some (JArr new)))"
proof (cases "\<exists>old. map_of attrs st = Some (JObj old)")
  case True
  then obtain old where old: "map_of attrs st = Some (JObj old)" by blast
  with assms obtain new where new: "convert_old_format fmt old = Inr new"
    and m': "m' = JObj (dict_set st (JArr new) attrs)"
    by (auto simp: migrate_skill_type_def split: sum.splits)
  show ?thesis
    using old new m' by (simp add: map_of_dict_set keys_dict_set_present)
next
  case False
  with assms have "m' = JObj attrs"
    by (auto simp: migrate_skill_type_def split: option.splits json.splits)
  with False show ?thesis by simp
qed

lemma migrate_skill_type_ok:
  assumes "old_format_ok (map_of attrs st)"
  shows "\<exists>m'. migrate_skill_type fmt st (JObj attrs) = Inr m'"
proof (cases "\<exists>old. map_of attrs st = Some (JObj old)")
  case True
  then obtain old where old: "map_of attrs st = Some (JObj old)" by blast
  with assms have "list_all (\<lambda>kv. iterable (snd kv)) old"
    by (simp add: old_format_ok_def)
  then obtain new where "convert_old_format fmt old = Inr new"
    using convert_old_format_ok by blast
  with old show ?thesis by (simp add: migrate_skill_type_def)
next
  case False
  then show ?thesis
    by (auto simp: migrate_skill_type_def split: option.splits json.splits)
qed

lemma migrate_member_ok:
  assumes "member_ok m"
  shows "\<exists>m'. migrate_member fmt m = Inr m'"
proof -
  from assms obtain attrs where m: "m = JObj attrs"
    and tech: "old_format_ok (map_of attrs ''technical_skills'')"
    and soft: "old_format_ok (map_of attrs ''soft_skills'')"
    by (auto simp: member_ok_def split: json.splits)
  from migrate_skill_type_ok [OF tech] obtain m1
    where m1: "migrate_skill_type fmt ''technical_skills'' (JObj attrs) = Inr m1" by blast
  from migrate_skill_type_result [OF m1] obtain attrs1
    where a1: "m1 = JObj attrs1" "map_of attrs1 ''soft_skills'' = map_of attrs ''soft_skills''"
    by auto
  from soft a1 have "old_format_ok (map_of attrs1 ''soft_skills'')" by simp
  from migrate_skill_type_ok [OF this] obtain m2
    where "migrate_skill_type fmt ''soft_skills'' (JObj attrs1) = Inr m2" by blast
  with m m1 a1 show ?thesis by (simp add: migrate_member_def)
qed

lemma migrate_member_legacy:
  assumes ok: "migrate_member fmt (JObj attrs) = Inr m'"
    and st: "st = ''technical_skills'' \<or> st = ''soft_skills''"
    and legacy: "map_of attrs st = Some (legacy_json legacy)"
  shows "\<exists>attrs'. m' = JObj attrs' \<and> map fst attrs' = map fst attrs
           \<and> map_of attrs' st = Some (JArr (map JStr (flat_skills legacy)))"
proof -
  from ok obtain m1 where m1: "migrate_skill_type fmt ''technical_skills'' (JObj attrs) = Inr m1"
    by (auto simp: migrate_member_def split: sum.splits)
  from migrate_skill_type_result [OF m1] obtain attrs1 where a1: "m1 = JObj attrs1"
    and k1: "map fst attrs1 = map fst attrs"
    and o1: "\<forall>k. k \<noteq> ''technical_skills'' \<longrightarrow> map_of attrs1 k = map_of attrs k"
    and l1: "\<forall>old. map_of attrs ''technical_skills'' = Some (JObj old) \<longrightarrow>
                  (\<exists>new. convert_old_format fmt old = Inr new
                     \<and> map_of attrs1 ''technical_skills'' = Some (JArr new))"
    by blast
  from ok m1 a1 have m2: "migrate_skill_type fmt ''soft_skills'' (JObj attrs1) = Inr m'"
    by (simp add: migrate_member_def)
  from migrate_skill_type_result [OF m2] obtain attrs2 where a2: "m' = JObj attrs2"
    and k2: "map fst attrs2 = map fst attrs1"
    and o2: "\<forall>k. k \<noteq> ''soft_skills'' \<longrightarrow> map_of attrs2 k = map_of attrs1 k"
    and l2: "\<forall>old. map_of attrs1 ''soft_skills'' = Some (JObj old) \<longrightarrow>
                  (\<exists>new. convert_old_format fmt old = Inr new
                     \<and> map_of attrs2 ''soft_skills'' = Some (JArr new))"
    by blast
  have conv: "convert_old_format fmt (map (\<lambda>(c, ss). (c, JArr (map JStr ss))) legacy)
                = Inr (map JStr (flat_skills legacy))"
    by (rule convert_old_format_legacy)
  from st show ?thesis
  proof
    assume t: "st = ''technical_skills''"
    with legacy l1 conv
    have "map_of attrs1 ''technical_skills'' = Some (JArr (map JStr (flat_skills legacy)))"
      by (auto simp: legacy_json_def)
    with o2 have "map_of attrs2 ''technical_skills'' = Some (JArr (map JStr (flat_skills legacy)))"
      by simp
    with a2 k1 k2 t show ?thesis by simp
  next
    assume t: "st = ''soft_skills''"
    with legacy o1 have "map_of attrs1 ''soft_skills'' = Some (legacy_json legacy)" by simp
    with l2 conv
    have "map_of attrs2 ''soft_skills'' = Some (JArr (map JStr (flat_skills legacy)))"
      by (auto simp: legacy_json_def)
    with a2 k1 k2 t show ?thesis by simp
  qed
qed

lemma migrate_members_ok:
  "list_all (\<lambda>nm. member_ok (snd nm)) members \<Longrightarrow>
     \<exists>members'. migrate_members fmt members = Inr members'"
proof (induction members)
  case Nil
  then show ?case by simp
next
  case (Cons nm members)
  obtain n m where nm: "nm = (n, m)" by (cases nm)
  from Cons.prems nm obtain m' where "migrate_member fmt m = Inr m'"
    using migrate_member_ok by auto
  moreover from Cons obtain ms' where "migrate_members fmt members = Inr ms'" by auto
  ultimately show ?case using nm by simp
qed

lemma migrate_members_nth:
  "migrate_members fmt members = Inr members' \<Longrightarrow>
     length members' = length members \<and> map fst members' = map fst members
     \<and> (\<forall>i < length members.
           migrate_member fmt (snd (members ! i)) = Inr (snd (members' ! i)))"
proof (induction members arbitrary: members')
  case Nil
  then show ?case by simp
next
  case (Cons nm members)
  obtain n m where nm: "nm = (n, m)" by (cases nm)
  from Cons.prems nm obtain m' ms' where m': "migrate_member fmt m = Inr m'"
    and ms': "migrate_members fmt members = Inr ms'"
    and res: "members' = (n, m') # ms'"
    by (auto split: sum.splits)
  from Cons.IH [OF ms'] have ih: "length ms' = length members" "map fst ms' = map fst members"
    "\<forall>i < length members. migrate_member fmt (snd (members ! i)) = Inr (snd (ms' ! i))"
    by auto
  have "\<forall>i < length (nm # members).
           migrate_member fmt (snd ((nm # members) ! i)) = Inr (snd (members' ! i))"
  proof (intro allI impI)
    fix i assume "i < length (nm # members)"
    then show "migrate_member fmt (snd ((nm # members) ! i)) = Inr (snd (members' ! i))"
      using ih m' nm res by (cases i) auto
  qed
  with ih nm res show ?case by simp
qed

text \<open>
  Claim C2 (legacy migration). Take a document whose \<open>team_members\<close> is an object in
  which every member can be loaded (\<open>member_ok\<close>: the member is an object, and a skill
  field stored as a nested map gives a sequence for every category). For the member at
  any position \<open>i\<close> whose \<open>technical_skills\<close> or \<open>soft_skills\<close> field is stored in
  the old nested-map format, \<open>load_data\<close> succeeds and leaves, at the same position
  and under the same name, a member with the same keys in the same order whose field is
  the flat list of \<open>"category: skill"\<close> strings: categories in stored order, skills
  in their order within the category.
\<close>

theorem load_migrates_legacy_skills:
  assumes doc: "map_of doc ''team_members'' = Some (JObj members)"
    and ok: "list_all (\<lambda>nm. member_ok (snd nm)) members"
    and i: "i < length members"
    and mem: "members ! i = (name, JObj attrs)"
    and st: "skill_type = ''technical_skills'' \<or> skill_type = ''soft_skills''"
    and legacy: "map_of attrs skill_type = Some (legacy_json legacy)"
  shows "\<exists>members' attrs'.
           team_members (load_data fmt (Parsed (JObj doc)) s) = JObj members'
         \<and> map fst members' = map fst members
         \<and> members' ! i = (name, JObj attrs')
         \<and> map fst attrs' = map fst attrs
         \<and> map_of attrs' skill_type = Some (JArr (map JStr (flat_skills legacy)))"
proof -
  from migrate_members_ok [OF ok] obtain members'
    where mm: "migrate_members fmt members = Inr members'" by blast
  from migrate_members_nth [OF mm] i mem
  have keys: "map fst members' = map fst members"
    and len: "length members' = length members"
    and mi: "migrate_member fmt (JObj attrs) = Inr (snd (members' ! i))"
    by auto
  from migrate_member_legacy [OF mi st legacy] obtain attrs'
    where a: "snd (members' ! i) = JObj attrs'" "map fst attrs' = map fst attrs"
      "map_of attrs' skill_type = Some (JArr (map JStr (flat_skills legacy)))"
    by blast
  from keys i len mem have "fst (members' ! i) = name"
    by (metis fst_conv nth_map)
  with a have nth: "members' ! i = (name, JObj attrs')"
    by (metis prod.collapse)
  have "team_members (load_data fmt (Parsed (JObj doc)) s) = JObj members'"
    using doc mm by (simp add: load_data_def load_document_def dict_get_def)
  with keys nth a show ?thesis by blast
qed

text \<open>
  The example of the spec: \<open>technical_skills: {"A": ["x", "y"]}\<close> is loaded as
  \<open>["A: x", "A: y"]\<close>.
\<close>

theorem load_migrates_legacy_skills_witness:
  "\<exists>members' attrs'.
      team_members (load_data (\<lambda>v. []) (Parsed (JObj
        [(''team_members'', JObj [(''Ann'', JObj [(''job_title'', JStr ''dev''),
            (''technical_skills'', JObj [(''A'', JArr [JStr ''x'', JStr ''y''])])])])]))
        initialize_data_structures) = JObj members'
    \<and> map fst members' = [''Ann'']
    \<and> members' ! 0 = (''Ann'', JObj attrs')
    \<and> map fst attrs' = [''job_title'', ''technical_skills'']
    \<and> map_of attrs' ''technical_skills'' = Some (JArr [JStr ''A: x'', JStr ''A: y''])"
  using load_migrates_legacy_skills [of
      "[(''team_members'', JObj [(''Ann'', JObj [(''job_title'', JStr ''dev''),
            (''technical_skills'', JObj [(''A'', JArr [JStr ''x'', JStr ''y''])])])])]"
      "[(''Ann'', JObj [(''job_title'', JStr ''dev''),
            (''technical_skills'', JObj [(''A'', JArr [JStr ''x'', JStr ''y''])])])]"
      0 "''Ann''"
      "[(''job_title'', JStr ''dev''), (''technical_skills'', JObj [(''A'', JArr [JStr ''x'', JStr ''y''])])]"
      "''technical_skills''" "[(''A'', [''x'', ''y''])]" "\<lambda>v. []" initialize_data_structures]
  by (simp add: member_ok_def old_format_ok_def legacy_json_def flat_skills_def)

subsection \<open>The example state\<close>

lemmas example_defs = example_state_def example_document_def example_member_def
  meeting_feb_def meeting_jan_def load_data_def load_document_def dict_get_def
  migrate_member_def migrate_skill_type_def initialize_data_structures_def
  empty_skills_data_def empty_subskills_data_def

lemma example_state_eq:
  "example_state =
     \<lparr> team_members = JObj [(''Ann'', example_member)],
       skills_data = empty_skills_data,
       subskills_data =
         JObj [(''Technical Skills'', JObj [(''Languages'', JArr [JStr ''Python''])]),
               (''Soft Skills'', JObj [])],
       meetings = JArr [meeting_feb, meeting_jan],
       categories = [(''Technical Skills'', []), (''Soft Skills'', []),
                     (''Software Skills'', []), (''Certifications'', [])] \<rparr>"
  by (simp add: example_defs)

lemma category_added_eq:
  "add_category ''Technical Skills'' ''Languages'' [''Python'', ''Go''] example_state =
     (CategoryAdded, example_state\<lparr> categories :=
        [(''Technical Skills'', [(''Languages'', [''Python'', ''Go''])]), (''Soft Skills'', []),
         (''Software Skills'', []), (''Certifications'', [])] \<rparr>)"
  by (simp add: add_category_def example_state_eq strip_def py_isspace_def)

lemma category_added_state:
  "category_added =
     \<lparr> team_members = JObj [(''Ann'', example_member)],
       skills_data = empty_skills_data,
       subskills_data =
         JObj [(''Technical Skills'', JObj [(''Languages'', JArr [JStr ''Python''])]),
               (''Soft Skills'', JObj [])],
       meetings = JArr [meeting_feb, meeting_jan],
       categories = [(''Technical Skills'', [(''Languages'', [''Python'', ''Go''])]),
                     (''Soft Skills'', []), (''Software Skills'', []),
                     (''Certifications'', [])] \<rparr>"
  by (simp add: category_added_def category_added_eq) (simp add: example_state_eq)

subsection \<open>Startup\<close>

lemma load_data_overwrites:
  "load_data fmt f (s\<lparr> subskills_data := a, meetings := b \<rparr>) =
     (load_data fmt f s) \<lparr> subskills_data := subskills_data (load_data fmt f s),
                          meetings := meetings (load_data fmt f s) \<rparr>"
  by (auto simp: load_data_def initialize_empty_data_def split: data_file.splits sum.splits)

text \<open>
  What \<open>load_data\<close> reads: on a document whose members all load, the skill data, the
  subskill data and the meetings are the values stored under their keys.
\<close>

lemma load_data_hydrates:
  assumes "map_of doc ''team_members'' = Some (JObj members)"
    and "list_all (\<lambda>nm. member_ok (snd nm)) members"
    and "map_of doc ''skills_data'' = Some sd"
    and "map_of doc ''subskills_data'' = Some ssd"
    and "map_of doc ''meetings'' = Some ms"
  shows "skills_data (load_data fmt (Parsed (JObj doc)) s) = sd"
    and "subskills_data (load_data fmt (Parsed (JObj doc)) s) = ssd"
    and "meetings (load_data fmt (Parsed (JObj doc)) s) = ms"
proof -
  from migrate_members_ok [OF assms(2)] obtain members'
    where "migrate_members fmt members = Inr members'" by blast
  with assms show "skills_data (load_data fmt (Parsed (JObj doc)) s) = sd"
    and "subskills_data (load_data fmt (Parsed (JObj doc)) s) = ssd"
    and "meetings (load_data fmt (Parsed (JObj doc)) s) = ms"
    by (simp_all add: load_data_def load_document_def dict_get_def)
qed

text \<open>The members that \<open>load_data\<close> leaves are dicts, so the team list can be filled.\<close>

lemma migrate_skill_type_obj:
  "migrate_skill_type fmt skill_type m = Inr m' \<Longrightarrow> \<exists>attrs. m' = JObj attrs"
  by (auto simp: migrate_skill_type_def split: json.splits option.splits sum.splits)

lemma migrate_members_obj:
  "migrate_members fmt members = Inr members' \<Longrightarrow>
     list_all (\<lambda>nm. case snd nm of JObj attrs \<Rightarrow> True | _ \<Rightarrow> False) members'"
proof (induction members arbitrary: members')
  case Nil
  then show ?case by simp
next
  case (Cons nm members)
  obtain name m where nm: "nm = (name, m)" by (cases nm)
  from Cons.prems nm obtain m' rest'
    where m: "migrate_member fmt m = Inr m'"
      and rest: "migrate_members fmt members = Inr rest'"
      and res: "members' = (name, m') # rest'"
    by (auto split: sum.splits)
  from m obtain attrs where "m' = JObj attrs"
    by (auto simp: migrate_member_def split: sum.splits dest: migrate_skill_type_obj)
  with Cons.IH [OF rest] res show ?case by simp
qed

lemma refresh_team_list_loaded:
  "refresh_team_list (load_data fmt f initialize_data_structures) = None"
  by (auto simp: refresh_team_list_def load_data_def load_document_def initialize_empty_data_def
        migrate_members_obj
        split: data_file.splits sum.splits json.splits prod.splits)

text \<open>
  With both dicts empty, \<open>create_widgets\<close> raises \<open>KeyError\<close> in its first skill
  section, whatever the stores hold, and leaves them as they are.
\<close>

lemma create_widgets_key_error:
  "refresh_team_list s = None \<Longrightarrow>
     create_widgets (initialize_ui_components u) s = (Some KeyError, s)"
  by (simp add: create_widgets_def create_member_details_tab_def create_skill_section_def
        initialize_ui_components_def)

text \<open>
  Claim C3 (startup hydration) fails on the code: startup never completes.
  \<open>load_data\<close> does read the stores from the document (lemma \<open>load_data_hydrates\<close>),
  but \<open>initialize_ui_components\<close> has emptied \<open>self.category_vars\<close>, which
  lines 59-70 had filled, so that \<open>create_skill_section\<close> raises \<open>KeyError\<close> at
  line 449 and \<open>__init__\<close> raises it again at line 107: for every data file the
  constructor ends with this exception, the stores being the ones \<open>load_data\<close> left.
  On the example document the meeting log holds the two meetings of the document at that
  moment, in an object that is never used. (Line 285, which would empty the meeting log,
  is not reached.)
\<close>

theorem init_raises_key_error:
  "fst (init fmt f) = Some KeyError
   \<and> snd (init fmt f) = load_data fmt f initialize_data_structures
   \<and> init (\<lambda>v. []) (Parsed example_document) = (Some KeyError, example_state)
   \<and> meetings example_state = JArr [meeting_feb, meeting_jan]"
proof -
  have stop: "init fmt' f' = (Some KeyError, load_data fmt' f' initialize_data_structures)"
    for fmt' f'
    by (simp add: init_def create_widgets_key_error [OF refresh_team_list_loaded])
  have "init (\<lambda>v. []) (Parsed example_document) = (Some KeyError, example_state)"
    by (simp only: stop example_state_def)
  moreover have "meetings example_state = JArr [meeting_feb, meeting_jan]"
    by (simp add: example_state_eq)
  ultimately show ?thesis by (simp add: stop)
qed

subsection \<open>The CSV import and the data file\<close>

lemma load_data_categories: "categories (load_data fmt f s) = categories s"
  by (auto simp: load_data_def initialize_empty_data_def split: data_file.splits sum.splits)

lemma save_data_categories: "save_data (s\<lparr> categories := c \<rparr>) = save_data s"
  by (simp add: save_data_def)

text \<open>
  Claim C10 (the CSV import is not persisted). Whatever the input and the state,
  \<open>upload_skills_csv\<close> changes nothing but \<open>categories\<close>, the document that
  \<open>save_data\<close> writes after the import is the document it would write without it, and a
  fresh start from that document (\<open>initialize_data_structures\<close>, then \<open>load_data\<close>)
  has the initial \<open>categories\<close>: the imported rows are gone.
\<close>

theorem csv_import_not_persisted:
  "save_data (snd (upload_skills_csv input s)) = save_data s
   \<and> snd (upload_skills_csv input s)
       = s\<lparr> categories := categories (snd (upload_skills_csv input s)) \<rparr>
   \<and> categories (load_data fmt (Parsed (save_data (snd (upload_skills_csv input s))))
                  initialize_data_structures)
       = categories initialize_data_structures"
proof -
  obtain r s' where r: "upload_skills_csv input s = (r, s')"
    by (cases "upload_skills_csv input s")
  then have frame: "s' = s\<lparr> categories := categories s' \<rparr>"
    by (auto simp: upload_skills_csv_def
             split: csv_input.splits list.splits prod.splits option.splits)
  with save_data_categories have "save_data s' = save_data s" by metis
  with r frame show ?thesis by (simp add: load_data_categories)
qed

text \<open>An import that does change \<open>categories\<close>, and is lost in this way.\<close>

lemma csv_import_example:
  "upload_skills_csv
     (CsvRows [[''category'', ''subcategory'', ''skill''],
               [''Technical Skills'', ''Languages'', ''Python''],
               [''Technical Skills,Languages, Go'']])
     example_state
   = (CsvProcessed,
      example_state\<lparr> categories :=
        [(''Technical Skills'', [(''Languages'', [''Python'', ''Go''])]), (''Soft Skills'', []),
         (''Software Skills'', []), (''Certifications'', [])] \<rparr>)"
  by (simp add: upload_skills_csv_def import_row_def resolve_row_def insert_skill_def
        dict_get_def strip_def py_isspace_def example_state_eq)

subsection \<open>Deleting a category\<close>

text \<open>
  Claim C9 (no cascade on category deletion). When the selected category is a key of
  \<open>self.categories[skill_type]\<close> and the deletion is confirmed, \<open>delete_category\<close>
  removes that key with the subskills stored under it, and the member registry is the
  same before and after: every list of assigned skills is unchanged, so a string
  \<open>"category: subskill"\<close> that names the deleted category stays assigned.
\<close>

theorem delete_category_no_cascade:
  assumes cat: "category \<noteq> []"
    and fam: "map_of (categories s) skill_type = Some family"
    and present: "category \<in> fst ` set family"
  shows "fst (delete_category skill_type category True s) = CategoryDeleted
       \<and> map_of (categories (snd (delete_category skill_type category True s))) skill_type
           = Some (filter (\<lambda>kv. fst kv \<noteq> category) family)
       \<and> category \<notin> fst ` set (filter (\<lambda>kv. fst kv \<noteq> category) family)
       \<and> team_members (snd (delete_category skill_type category True s)) = team_members s"
  using assms
  by (auto simp: delete_category_def dict_del_def map_of_dict_set)

text \<open>
  Ann holds "Languages: Python"; the category "Languages", added before, is deleted from
  the technical skills and Ann's record is as it was.
\<close>

theorem delete_category_no_cascade_witness:
  "fst (delete_category ''Technical Skills'' ''Languages'' True category_added) = CategoryDeleted
   \<and> map_of (categories (snd (delete_category ''Technical Skills'' ''Languages'' True
                                category_added))) ''Technical Skills'' = Some []
   \<and> team_members (snd (delete_category ''Technical Skills'' ''Languages'' True category_added))
        = JObj [(''Ann'', example_member)]
   \<and> getitem example_member ''technical_skills'' = Inr (JArr [JStr ''Languages: Python''])"
proof -
  have h1: "''Languages'' \<noteq> []" by simp
  have h2: "map_of (categories category_added) ''Technical Skills''
              = Some [(''Languages'', [''Python'', ''Go''])]"
    by (simp add: category_added_state)
  have h3: "''Languages'' \<in> fst ` set [(''Languages'', [''Python'', ''Go''])]" by simp
  have tm: "team_members category_added = JObj [(''Ann'', example_member)]"
    by (simp add: category_added_state)
  from delete_category_no_cascade [OF h1 h2 h3] tm show ?thesis
    by (simp add: getitem_def example_member_def)
qed

text \<open>
  Whatever its arguments, \<open>delete_category\<close> leaves the member registry, and the
  subskills recorded under \<open>subskills_data\<close>, as they are.
\<close>

lemma delete_category_frame:
  "team_members (snd (delete_category skill_type category confirmed s)) = team_members s
   \<and> subskills_data (snd (delete_category skill_type category confirmed s)) = subskills_data s"
  by (auto simp: delete_category_def split: option.splits sum.splits)

subsection \<open>Saving and loading\<close>

lemma migrate_member_flat: "member_flat m \<Longrightarrow> migrate_member fmt m = Inr m"
  by (auto simp: member_flat_def migrate_member_def migrate_skill_type_def
           split: json.splits option.splits)

lemma migrate_members_flat:
  "list_all (\<lambda>nm. member_flat (snd nm)) members \<Longrightarrow> migrate_members fmt members = Inr members"
  by (induction members) (auto simp: migrate_member_flat)

text \<open>
  The four stores that \<open>save_data\<close> writes come back as they were, whatever state
  \<open>load_data\<close> starts from, when the registry is flat.
\<close>

lemma save_load_stores:
  assumes "registry_flat (team_members s)"
  shows "load_data fmt (Parsed (save_data s)) s0 =
           s0\<lparr> team_members := team_members s, skills_data := skills_data s,
               subskills_data := subskills_data s, meetings := meetings s \<rparr>"
  using assms
  by (auto simp: registry_flat_def load_data_def load_document_def save_data_def dict_get_def
        migrate_members_flat split: json.splits)

lemma migrate_skill_type_flat_after:
  assumes "migrate_skill_type fmt st m = Inr m'"
  shows "\<exists>attrs'. m' = JObj attrs' \<and> (\<forall>d. map_of attrs' st \<noteq> Some (JObj d))"
proof -
  from assms obtain attrs where m: "m = JObj attrs"
    by (auto simp: migrate_skill_type_def split: json.splits)
  from migrate_skill_type_result [OF assms [unfolded m]] obtain attrs' where
    a: "m' = JObj attrs'"
    "\<forall>old. map_of attrs st = Some (JObj old) \<longrightarrow>
        (\<exists>new. convert_old_format fmt old = Inr new \<and> map_of attrs' st = Some (JArr new))"
    by blast
  show ?thesis
  proof (cases "\<exists>old. map_of attrs st = Some (JObj old)")
    case True
    with a show ?thesis by auto
  next
    case False
    with assms m have "m' = JObj attrs"
      by (auto simp: migrate_skill_type_def split: option.splits json.splits)
    with False show ?thesis by auto
  qed
qed

lemma migrate_member_gives_flat:
  assumes "migrate_member fmt m = Inr m'"
  shows "member_flat m'"
proof -
  from assms obtain m1 where m1: "migrate_skill_type fmt ''technical_skills'' m = Inr m1"
    and m2: "migrate_skill_type fmt ''soft_skills'' m1 = Inr m'"
    by (auto simp: migrate_member_def split: sum.splits)
  from migrate_skill_type_flat_after [OF m1] obtain attrs1 where
    a1: "m1 = JObj attrs1" "\<forall>d. map_of attrs1 ''technical_skills'' \<noteq> Some (JObj d)" by blast
  from migrate_skill_type_result [OF m2 [unfolded a1(1)]] obtain attrs2 where
    a2: "m' = JObj attrs2" "map_of attrs2 ''technical_skills'' = map_of attrs1 ''technical_skills''"
    by auto
  from migrate_skill_type_flat_after [OF m2] a2 have
    "\<forall>d. map_of attrs2 ''soft_skills'' \<noteq> Some (JObj d)" by auto
  with a1 a2 show ?thesis
    by (auto simp: member_flat_def split: option.splits json.splits)
qed

lemma migrate_members_give_flat:
  "migrate_members fmt members = Inr members' \<Longrightarrow>
     list_all (\<lambda>nm. member_flat (snd nm)) members'"
proof (induction members arbitrary: members')
  case Nil
  then show ?case by simp
next
  case (Cons nm members)
  obtain n m where nm: "nm = (n, m)" by (cases nm)
  from Cons.prems nm obtain m' ms' where "migrate_member fmt m = Inr m'"
    "migrate_members fmt members = Inr ms'" "members' = (n, m') # ms'"
    by (auto split: sum.splits)
  with Cons.IH show ?case by (simp add: migrate_member_gives_flat)
qed

text \<open>Every registry that \<open>load_data\<close> produces is flat.\<close>

lemma load_data_registry_flat: "registry_flat (team_members (load_data fmt f s))"
  by (auto simp: load_data_def load_document_def initialize_empty_data_def registry_flat_def
        migrate_members_give_flat
        split: data_file.splits sum.splits json.splits prod.splits)

text \<open>
  Claim C1 (round-trip persistence) fails on the code for the part of the taxonomy kept
  in \<open>self.categories\<close>. \<open>add_category\<close>, \<open>add_subskills_to_category\<close>,
  \<open>delete_category\<close> and \<open>upload_skills_csv\<close> change \<open>self.categories\<close> and call
  \<open>save_data\<close> at once, but the dict that \<open>save_data\<close> writes has no entry for it and
  \<open>load_data\<close> reads none. After the category "Languages" with the subskills "Python"
  and "Go" has been added and saved, a start from the saved document has no category at
  all.
  (The four stores that are written do come back: lemma \<open>save_load_stores\<close>.)
\<close>

theorem save_load_loses_categories:
  "categories category_added =
     [(''Technical Skills'', [(''Languages'', [''Python'', ''Go''])]), (''Soft Skills'', []),
      (''Software Skills'', []), (''Certifications'', [])]
   \<and> categories (load_data (\<lambda>v. []) (Parsed (save_data category_added))
                  initialize_data_structures) =
     [(''Technical Skills'', []), (''Soft Skills'', []),
      (''Software Skills'', []), (''Certifications'', [])]"
  by (simp add: category_added_state load_data_categories initialize_data_structures_def)

subsection \<open>Assigning a skill to a member\<close>


lemma skill_key_soft: "skill_key ''Soft Skills'' = ''soft_skills''"
  by code_simp





text \<open>
  The other families ("Software Skills", "Certifications") take one value, which is
  assigned as it is under the same rule.
\<close>

lemma add_skill_to_member_flat_family:
  assumes "member_name \<noteq> []"
    and "team_members s = JObj members"
    and "map_of members member_name = Some (JObj attrs)"
    and "map_of attrs (skill_key skill_type) = Some (JArr skill_list)"
    and "skill_type \<noteq> ''Technical Skills''" "skill_type \<noteq> ''Soft Skills''"
    and "skill \<noteq> []"
  shows "add_skill_to_member member_name skill_type [skill] s =
           (if JStr skill \<in> set skill_list then (AlreadyInList, s)
            else (SkillAdded,
                  s\<lparr> team_members :=
                       JObj (dict_set member_name
                               (JObj (dict_set (skill_key skill_type)
                                        (JArr (skill_list @ [JStr skill])) attrs))
                               members) \<rparr>))"
  using assms
  by (simp add: add_skill_to_member_def compose_skill_def getitem_def str_in_def
        py_append_def set_nested_def)

subsection \<open>Moving a goal to the achievements\<close>





subsection \<open>The CSV import: when it fails\<close>

lemma import_row_three:
  "three_fields row \<Longrightarrow> \<exists>cats'. import_row row cats = Inr cats'"
  by (auto simp: import_row_def three_fields_def length_Suc_conv numeral_3_eq_3)

lemma import_row_not_three:
  "\<not> three_fields row \<Longrightarrow> import_row row cats = Inl ValueError"
  by (simp add: import_row_def three_fields_def)

lemma import_rows_all_three:
  "list_all three_fields rows \<Longrightarrow> fst (import_rows rows cats) = None"
proof (induction rows arbitrary: cats)
  case Nil
  then show ?case by simp
next
  case (Cons row rows)
  from Cons.prems have "three_fields row" by simp
  then obtain cats' where "import_row row cats = Inr cats'"
    using import_row_three by blast
  with Cons show ?case by simp
qed

lemma import_rows_some_not_three:
  "\<not> list_all three_fields rows \<Longrightarrow> fst (import_rows rows cats) = Some ValueError"
proof (induction rows arbitrary: cats)
  case Nil
  then show ?case by simp
next
  case (Cons row rows)
  show ?case
  proof (cases "three_fields row")
    case True
    then obtain cats' where "import_row row cats = Inr cats'"
      using import_row_three by blast
    with Cons True show ?thesis by simp
  next
    case False
    then show ?thesis by (simp add: import_row_not_three)
  qed
qed

lemma import_rows_halts:
  "snd (import_rows rows cats) = snd (import_rows (takeWhile three_fields rows) cats)"
proof (induction rows arbitrary: cats)
  case Nil
  then show ?case by simp
next
  case (Cons row rows)
  show ?case
  proof (cases "three_fields row")
    case True
    then obtain cats' where "import_row row cats = Inr cats'"
      using import_row_three by blast
    with Cons True show ?thesis by simp
  next
    case False
    then show ?thesis by (simp add: import_row_not_three)
  qed
qed

lemma upload_result:
  "upload_skills_csv (CsvRows (header # rows)) s =
     ((case fst (import_rows rows (categories s)) of
         Some e \<Rightarrow> CsvFailed e
       | None \<Rightarrow> CsvProcessed),
      s\<lparr> categories := snd (import_rows rows (categories s)) \<rparr>)"
  by (simp add: upload_skills_csv_def split: prod.splits option.splits)

text \<open>
  Claim C6 (when the CSV import fails), as amended. For a header followed by data rows,
  the import fails, with the \<open>ValueError\<close> of line 1661, exactly when some data row
  does not resolve to three fields, and it succeeds otherwise; whether a field is empty
  is not looked at. The first such row ends the processing: the state after the import
  is the state after a successful import of the rows before it, so those rows stay
  applied to \<open>self.categories\<close>.
\<close>

theorem csv_import_fails_iff_not_three_fields:
  "(fst (upload_skills_csv (CsvRows (header # rows)) s) = CsvFailed ValueError
      \<longleftrightarrow> (\<exists>row \<in> set rows. \<not> three_fields row))
   \<and> (fst (upload_skills_csv (CsvRows (header # rows)) s) = CsvProcessed
      \<longleftrightarrow> \<not> (\<exists>row \<in> set rows. \<not> three_fields row))
   \<and> fst (upload_skills_csv (CsvRows (header # takeWhile three_fields rows)) s) = CsvProcessed
   \<and> snd (upload_skills_csv (CsvRows (header # rows)) s)
       = snd (upload_skills_csv (CsvRows (header # takeWhile three_fields rows)) s)"
proof -
  have pre: "list_all three_fields (takeWhile three_fields rows)"
    by (induction rows) auto
  show ?thesis
  proof (cases "list_all three_fields rows")
    case True
    then have "\<not> (\<exists>row \<in> set rows. \<not> three_fields row)" by (simp add: list_all_iff)
    with True pre show ?thesis
      by (simp add: upload_result import_rows_all_three import_rows_halts [of rows])
  next
    case False
    then have "\<exists>row \<in> set rows. \<not> three_fields row" by (simp add: list_all_iff)
    with False pre show ?thesis
      by (simp add: upload_result import_rows_all_three import_rows_some_not_three
            import_rows_halts [of rows])
  qed
qed

text \<open>
  A file whose second data row has two fields: the import fails, the first row has been
  applied and the third has not.
\<close>

theorem csv_import_fails_iff_not_three_fields_witness:
  "upload_skills_csv
     (CsvRows [[''category'', ''subcategory'', ''skill''],
               [''Technical Skills'', ''Languages'', ''Python''],
               [''Technical Skills'', ''Languages''],
               [''Technical Skills'', ''Languages'', ''Go'']]) example_state
   = (CsvFailed ValueError,
      example_state\<lparr> categories :=
        [(''Technical Skills'', [(''Languages'', [''Python''])]), (''Soft Skills'', []),
         (''Software Skills'', []), (''Certifications'', [])] \<rparr>)"
proof -
  have rows: "takeWhile three_fields
                [[''Technical Skills'', ''Languages'', ''Python''],
                 [''Technical Skills'', ''Languages''],
                 [''Technical Skills'', ''Languages'', ''Go'']]
              = [[''Technical Skills'', ''Languages'', ''Python'']]"
    by (simp add: three_fields_def resolve_row_def)
  have bad: "\<exists>row \<in> set [[''Technical Skills'', ''Languages'', ''Python''],
                           [''Technical Skills'', ''Languages''],
                           [''Technical Skills'', ''Languages'', ''Go'']]. \<not> three_fields row"
    by (simp add: three_fields_def resolve_row_def)
  have first: "snd (upload_skills_csv
                 (CsvRows [[''category'', ''subcategory'', ''skill''],
                           [''Technical Skills'', ''Languages'', ''Python'']]) example_state)
               = example_state\<lparr> categories :=
                   [(''Technical Skills'', [(''Languages'', [''Python''])]), (''Soft Skills'', []),
                    (''Software Skills'', []), (''Certifications'', [])] \<rparr>"
    by (simp add: upload_skills_csv_def import_row_def resolve_row_def insert_skill_def
          dict_get_def strip_def py_isspace_def example_state_eq)
  from csv_import_fails_iff_not_three_fields
         [of "[''category'', ''subcategory'', ''skill'']"
             "[[''Technical Skills'', ''Languages'', ''Python''],
               [''Technical Skills'', ''Languages''],
               [''Technical Skills'', ''Languages'', ''Go'']]" example_state]
       bad
  have "fst (upload_skills_csv
               (CsvRows [[''category'', ''subcategory'', ''skill''],
                         [''Technical Skills'', ''Languages'', ''Python''],
                         [''Technical Skills'', ''Languages''],
                         [''Technical Skills'', ''Languages'', ''Go'']]) example_state)
          = CsvFailed ValueError"
    and "snd (upload_skills_csv
               (CsvRows [[''category'', ''subcategory'', ''skill''],
                         [''Technical Skills'', ''Languages'', ''Python''],
                         [''Technical Skills'', ''Languages''],
                         [''Technical Skills'', ''Languages'', ''Go'']]) example_state)
          = snd (upload_skills_csv
                 (CsvRows [[''category'', ''subcategory'', ''skill''],
                           [''Technical Skills'', ''Languages'', ''Python'']]) example_state)"
    by (simp_all only: rows)
  with first show ?thesis by (simp add: prod_eq_iff)
qed

text \<open>
  The claim as stated lets the import fail on a row with an empty field. A row whose
  subcategory is empty is not a row of three non-empty fields, and it is imported: the
  skill is filed under the subcategory with the empty name.
\<close>

theorem csv_empty_field_counterexample:
  "\<not> three_nonempty_fields [''Technical Skills'', '''', ''Python'']
   \<and> upload_skills_csv
       (CsvRows [[''category'', ''subcategory'', ''skill''],
                 [''Technical Skills'', '''', ''Python'']]) example_state
     = (CsvProcessed,
        example_state\<lparr> categories :=
          [(''Technical Skills'', [('''', [''Python''])]), (''Soft Skills'', []),
           (''Software Skills'', []), (''Certifications'', [])] \<rparr>)"
  by (simp add: three_nonempty_fields_def upload_skills_csv_def import_row_def resolve_row_def
        insert_skill_def dict_get_def strip_def py_isspace_def example_state_eq)

subsection \<open>Adding several subskills at once\<close>

lemma split_on_nonempty: "split_on c t \<noteq> []"
  by (induction t) (auto split: list.splits)

lemma split_on_no_sep: "c \<notin> set t \<Longrightarrow> split_on c t = [t]"
  by (induction t) auto

lemma split_on_leading:
  assumes "c \<notin> set ws"
  shows "split_on c (ws @ t) = (ws @ hd (split_on c t)) # tl (split_on c t)"
  using assms
proof (induction ws)
  case Nil
  then show ?case using split_on_nonempty [of c t] by simp
next
  case (Cons w ws)
  then show ?case by auto
qed

lemma split_on_trailing:
  assumes "c \<notin> set ws"
  shows "split_on c (t @ ws) = butlast (split_on c t) @ [last (split_on c t) @ ws]"
proof (induction t)
  case Nil
  then show ?case using assms by (simp add: split_on_no_sep)
next
  case (Cons x t)
  obtain u us where s: "split_on c t = u # us"
    using split_on_nonempty [of c t] by (cases "split_on c t") auto
  show ?case
    using Cons s by (cases us) (auto split: list.splits)
qed

lemma strip_leading: "\<forall>x \<in> set ws. py_isspace x \<Longrightarrow> strip (ws @ t) = strip t"
  by (simp add: strip_def dropWhile_append)

lemma strip_trailing:
  assumes "\<forall>x \<in> set ws. py_isspace x"
  shows "strip (t @ ws) = strip t"
proof (cases "\<forall>x \<in> set t. py_isspace x")
  case True
  with assms have "dropWhile py_isspace (t @ ws) = []" "dropWhile py_isspace t = []"
    by (simp_all add: dropWhile_eq_Nil_conv)
  then show ?thesis by (metis strip_def)
next
  case False
  then have d: "dropWhile py_isspace (t @ ws) = dropWhile py_isspace t @ ws"
    by (auto simp: dropWhile_append)
  from assms have "dropWhile py_isspace (rev ws @ rev (dropWhile py_isspace t))
                     = dropWhile py_isspace (rev (dropWhile py_isspace t))"
    by (simp add: dropWhile_append)
  with d show ?thesis by (simp add: strip_def)
qed

lemma strip_decompose:
  "\<exists>a b. t = a @ strip t @ b \<and> (\<forall>x \<in> set a. py_isspace x) \<and> (\<forall>x \<in> set b. py_isspace x)"
proof -
  let ?a = "takeWhile py_isspace t"
  let ?r = "dropWhile py_isspace t"
  let ?b = "rev (takeWhile py_isspace (rev ?r))"
  have "?r = strip t @ ?b"
    unfolding strip_def
    by (metis rev_append rev_rev_ident takeWhile_dropWhile_id)
  then have "t = ?a @ strip t @ ?b" by (metis takeWhile_dropWhile_id)
  moreover have "\<forall>x \<in> set ?a. py_isspace x" by (auto dest: set_takeWhileD)
  moreover have "\<forall>x \<in> set ?b. py_isspace x" by (auto dest: set_takeWhileD)
  ultimately show ?thesis by blast
qed

lemma map_strip_split_strip:
  assumes sep: "\<not> py_isspace c"
  shows "map strip (split_on c (strip t)) = map strip (split_on c t)"
proof -
  obtain a b where t: "t = a @ strip t @ b"
    and a: "\<forall>x \<in> set a. py_isspace x" and b: "\<forall>x \<in> set b. py_isspace x"
    using strip_decompose by blast
  from a sep have ca: "c \<notin> set a" by auto
  from b sep have cb: "c \<notin> set b" by auto
  let ?T = "split_on c (strip t)"
  let ?S = "split_on c (strip t @ b)"
  have S: "?S = butlast ?T @ [last ?T @ b]" by (rule split_on_trailing [OF cb])
  have "map strip ?S = map strip (butlast ?T @ [last ?T])"
    using b by (simp add: S strip_trailing)
  then have mS: "map strip ?S = map strip ?T"
    using split_on_nonempty [of c "strip t"] by simp
  have "split_on c (a @ strip t @ b) = (a @ hd ?S) # tl ?S" by (rule split_on_leading [OF ca])
  then have "map strip (split_on c (a @ strip t @ b)) = map strip (hd ?S # tl ?S)"
    using a by (simp add: strip_leading)
  also have "\<dots> = map strip ?S" using split_on_nonempty [of c "strip t @ b"] by simp
  finally show ?thesis using t mS by simp
qed

lemma comma_not_space: "\<not> py_isspace CHR '',''"
  by (simp add: py_isspace_def)

lemma tokens_of_entry:
  "filter (\<lambda>t. t \<noteq> []) (map strip (split_on CHR '','' (strip entry))) = bulk_tokens entry"
  by (simp add: bulk_tokens_def map_strip_split_strip [OF comma_not_space])

lemma new_subskills_skip:
  "JStr t \<in> set xs \<Longrightarrow> new_subskills xs (t # ts) = new_subskills xs ts"
  by (simp add: new_subskills_def)

lemma new_subskills_add:
  assumes "JStr t \<notin> set xs"
  shows "new_subskills xs (t # ts) = t # new_subskills (xs @ [JStr t]) ts"
proof -
  have "filter (\<lambda>y. y \<noteq> t) (filter (\<lambda>u. JStr u \<notin> set xs) ts)
          = filter (\<lambda>u. JStr u \<notin> set (xs @ [JStr t])) ts"
    by (induction ts) auto
  with assms show ?thesis by (simp add: new_subskills_def)
qed

lemma subskills_loop_added:
  "\<exists>warned'. subskills_loop tokens (JArr xs) added warned =
     (None, JArr (xs @ map JStr (new_subskills xs tokens)),
      added @ new_subskills xs tokens, warned @ warned')
     \<and> length warned' + length (new_subskills xs tokens) = length tokens
     \<and> (\<forall>t \<in> set warned'. JStr t \<in> set (xs @ map JStr (new_subskills xs tokens)))"
proof (induction tokens arbitrary: xs added warned)
  case Nil
  then show ?case by (simp add: new_subskills_def)
next
  case (Cons t ts)
  show ?case
  proof (cases "JStr t \<in> set xs")
    case True
    from Cons [of xs added "warned @ [t]"] obtain w where
      "subskills_loop ts (JArr xs) added (warned @ [t]) =
         (None, JArr (xs @ map JStr (new_subskills xs ts)), added @ new_subskills xs ts,
          (warned @ [t]) @ w)"
      "length w + length (new_subskills xs ts) = length ts"
      "\<forall>u \<in> set w. JStr u \<in> set (xs @ map JStr (new_subskills xs ts))"
      by blast
    with True show ?thesis
      by (intro exI [of _ "t # w"]) (auto simp: str_in_def new_subskills_skip)
  next
    case False
    from Cons [of "xs @ [JStr t]" "added @ [t]" warned] obtain w where
      "subskills_loop ts (JArr (xs @ [JStr t])) (added @ [t]) warned =
         (None, JArr ((xs @ [JStr t]) @ map JStr (new_subskills (xs @ [JStr t]) ts)),
          (added @ [t]) @ new_subskills (xs @ [JStr t]) ts, warned @ w)"
      "length w + length (new_subskills (xs @ [JStr t]) ts) = length ts"
      "\<forall>u \<in> set w. JStr u \<in> set ((xs @ [JStr t]) @ map JStr (new_subskills (xs @ [JStr t]) ts))"
      by blast
    with False show ?thesis
      by (intro exI [of _ w]) (auto simp: str_in_def py_append_def new_subskills_add)
  qed
qed

lemma dict_set_same: "map_of d k = Some v \<Longrightarrow> dict_set k v d = d"
  by (induction d) (auto split: if_splits)

text \<open>
  Claim C5 (bulk subskill add), as amended. Take a family and a selected category under
  which \<open>subskills_data\<close> holds a list, and an entry that is not blank (a blank entry is
  answered with "Please enter subskills" before anything is split). The tokens are the
  entry split on commas, each token trimmed, empty tokens dropped. Each token that is not
  in the list yet is appended to it, once and in input order; the closing message
  reports how many were appended ("No new subskills" when none was). A token that is in
  the list already, or that repeats an earlier token, is not appended and does not end
  the call; for each of them the "Duplicate" warning is shown, so every token is either
  appended or warned about.
\<close>

theorem add_multiple_subskills_spec:
  assumes cat: "category \<noteq> []"
    and blank: "strip entry \<noteq> []"
    and store: "subskills_data s = JObj families"
    and fam: "map_of families skill_type = Some (JObj family)"
    and lst: "map_of family category = Some (JArr existing)"
    and added: "added = new_subskills existing (bulk_tokens entry)"
    and res: "add_multiple_subskills skill_type category entry s = (result, warned, s')"
  shows "result = (if added = [] then NoNewSubskills else AddedSubskills (length added))
       \<and> s' = s\<lparr> subskills_data :=
                   JObj (dict_set skill_type
                           (JObj (dict_set category (JArr (existing @ map JStr added)) family))
                           families) \<rparr>
       \<and> length warned + length added = length (bulk_tokens entry)
       \<and> (\<forall>t \<in> set warned. JStr t \<in> set (existing @ map JStr added))"
proof (cases "bulk_tokens entry = []")
  case True
  with added have a: "added = []" by (simp add: new_subskills_def)
  have "dict_set skill_type (JObj (dict_set category (JArr existing) family)) families = families"
    using fam lst by (simp add: dict_set_same)
  with store have "s\<lparr> subskills_data :=
                   JObj (dict_set skill_type
                           (JObj (dict_set category (JArr existing) family)) families) \<rparr> = s"
    by simp
  with res cat blank True a show ?thesis
    by (simp add: add_multiple_subskills_def tokens_of_entry)
next
  case False
  obtain w where loop: "subskills_loop (bulk_tokens entry) (JArr existing) [] [] =
       (None, JArr (existing @ map JStr added), [] @ added, [] @ w)"
    and len: "length w + length added = length (bulk_tokens entry)"
    and dup: "\<forall>t \<in> set w. JStr t \<in> set (existing @ map JStr added)"
    using subskills_loop_added [of "bulk_tokens entry" existing "[]" "[]"] added by blast
  from res cat blank False store fam lst loop
  have "result = (if added = [] then NoNewSubskills else AddedSubskills (length added))"
    and "warned = w"
    and "s' = s\<lparr> subskills_data :=
                   JObj (dict_set skill_type
                           (JObj (dict_set category (JArr (existing @ map JStr added)) family))
                           families) \<rparr>"
    by (auto simp: add_multiple_subskills_def tokens_of_entry getitem_def set_nested_def)
  with len dup show ?thesis by simp
qed

lemma bulk_tokens_example: "bulk_tokens bulk_entry = [''Go'', ''Python'', ''Go'', ''Rust'']"
  by (simp add: bulk_tokens_def bulk_entry_def strip_def py_isspace_def)

lemma strip_bulk_entry: "strip bulk_entry \<noteq> []"
  by (simp add: bulk_entry_def strip_def py_isspace_def)

lemma bulk_add_example:
  "add_multiple_subskills ''Technical Skills'' ''Languages'' bulk_entry category_added =
     (AddedSubskills 2, [''Python'', ''Go''],
      category_added\<lparr> subskills_data :=
        JObj [(''Technical Skills'',
                 JObj [(''Languages'', JArr [JStr ''Python'', JStr ''Go'', JStr ''Rust''])]),
              (''Soft Skills'', JObj [])] \<rparr>)"
  using strip_bulk_entry
  by (simp add: add_multiple_subskills_def tokens_of_entry bulk_tokens_example category_added_state
        getitem_def str_in_def py_append_def set_nested_def)

text \<open>
  The entry " Go, Python , ,Go,Rust " against the list ["Python"]: "Go" and "Rust" are
  appended, the count is 2, and two warnings are shown.
\<close>

theorem add_multiple_subskills_spec_witness:
  "fst (add_multiple_subskills ''Technical Skills'' ''Languages'' bulk_entry category_added)
     = AddedSubskills 2
   \<and> snd (snd (add_multiple_subskills ''Technical Skills'' ''Languages'' bulk_entry category_added))
       = category_added\<lparr> subskills_data :=
           JObj [(''Technical Skills'',
                    JObj [(''Languages'', JArr [JStr ''Python'', JStr ''Go'', JStr ''Rust''])]),
                 (''Soft Skills'', JObj [])] \<rparr>
   \<and> length (fst (snd (add_multiple_subskills ''Technical Skills'' ''Languages'' bulk_entry
                         category_added))) = 2"
proof -
  have cat: "''Languages'' \<noteq> []" by simp
  have blank: "strip bulk_entry \<noteq> []" by (rule strip_bulk_entry)
  have store: "subskills_data category_added =
     JObj [(''Technical Skills'', JObj [(''Languages'', JArr [JStr ''Python''])]),
           (''Soft Skills'', JObj [])]"
    by (simp add: category_added_state)
  have fam: "map_of [(''Technical Skills'', JObj [(''Languages'', JArr [JStr ''Python''])]),
                     (''Soft Skills'', JObj [])] ''Technical Skills''
               = Some (JObj [(''Languages'', JArr [JStr ''Python''])])"
    by simp
  have lst: "map_of [(''Languages'', JArr [JStr ''Python''])] ''Languages''
               = Some (JArr [JStr ''Python''])"
    by simp
  have added: "[''Go'', ''Rust''] = new_subskills [JStr ''Python''] (bulk_tokens bulk_entry)"
    by (simp add: bulk_tokens_example new_subskills_def)
  have res: "add_multiple_subskills ''Technical Skills'' ''Languages'' bulk_entry category_added =
     (fst (add_multiple_subskills ''Technical Skills'' ''Languages'' bulk_entry category_added),
      fst (snd (add_multiple_subskills ''Technical Skills'' ''Languages'' bulk_entry category_added)),
      snd (snd (add_multiple_subskills ''Technical Skills'' ''Languages'' bulk_entry category_added)))"
    by simp
  from add_multiple_subskills_spec [OF cat blank store fam lst added res]
  show ?thesis by (simp add: bulk_tokens_example)
qed

text \<open>
  The claim as stated has duplicates skipped silently. For the same entry the call shows
  the "Duplicate" warning twice: for "Python", which the category holds already, and for
  the second "Go".
\<close>

theorem bulk_add_warns_counterexample:
  "add_multiple_subskills ''Technical Skills'' ''Languages'' bulk_entry category_added =
     (AddedSubskills 2, [''Python'', ''Go''],
      category_added\<lparr> subskills_data :=
        JObj [(''Technical Skills'',
                 JObj [(''Languages'', JArr [JStr ''Python'', JStr ''Go'', JStr ''Rust''])]),
              (''Soft Skills'', JObj [])] \<rparr>)"
  by (rule bulk_add_example)

subsection \<open>The order of the meeting list\<close>

lemma feb_le_jan_as_strings: "''01/02/2024'' \<le> ''02/01/2024''"
  by simp

lemma set_insert_desc: "set (insert_desc x ys) = insert x (set ys)"
  by (induction ys) auto

lemma mset_insert_desc: "mset (insert_desc x ys) = add_mset x (mset ys)"
  by (induction ys) auto

lemma mset_sorted_reverse: "mset (sorted_reverse xs) = mset xs"
  by (induction xs) (auto simp: sorted_reverse_def mset_insert_desc)

lemma descending_insert_desc:
  "sorted_wrt (\<lambda>a b. fst b \<le> fst a) ys \<Longrightarrow> sorted_wrt (\<lambda>a b. fst b \<le> fst a) (insert_desc x ys)"
  by (induction ys) (auto simp: set_insert_desc)

lemma descending_sorted_reverse: "sorted_wrt (\<lambda>a b. fst b \<le> fst a) (sorted_reverse xs)"
  by (induction xs) (auto simp: sorted_reverse_def descending_insert_desc)

lemma filter_insert_desc:
  assumes "sorted_wrt (\<lambda>a b. fst b \<le> fst a) ys"
  shows "filter (\<lambda>y. fst y = k) (insert_desc x ys)
           = (if fst x = k then x # filter (\<lambda>y. fst y = k) ys else filter (\<lambda>y. fst y = k) ys)"
  using assms
proof (induction ys)
  case Nil
  then show ?case by simp
next
  case (Cons y ys)
  show ?case
  proof (cases "fst y \<le> fst x")
    case True
    then show ?thesis by simp
  next
    case False
    with Cons show ?thesis by auto
  qed
qed

lemma stable_sorted_reverse:
  "filter (\<lambda>y. fst y = k) (sorted_reverse xs) = filter (\<lambda>y. fst y = k) xs"
proof (induction xs)
  case Nil
  then show ?case by (simp add: sorted_reverse_def)
next
  case (Cons x xs)
  have "sorted_reverse (x # xs) = insert_desc x (sorted_reverse xs)"
    by (simp add: sorted_reverse_def)
  with Cons show ?case
    by (simp add: filter_insert_desc [OF descending_sorted_reverse])
qed

text \<open>
  What \<open>sorted_meetings\<close> returns when every meeting has a string under \<open>date\<close>: the
  meetings rearranged (\<open>mset\<close>), by descending date string, meetings of equal date
  strings in their stored order.
\<close>

lemma date_keys_snd: "date_keys xs = Inr keyed \<Longrightarrow> map snd keyed = xs"
proof (induction xs arbitrary: keyed)
  case Nil
  then show ?case by simp
next
  case (Cons m ms)
  then show ?case
    by (auto split: sum.splits json.splits)
qed

lemma sorted_meetings_keyed:
  assumes "date_keys xs = Inr keyed"
  shows "sorted_meetings (JArr xs) = Inr (map snd (sorted_reverse keyed))"
    and "mset (map snd (sorted_reverse keyed)) = mset xs"
    and "sorted_wrt (\<lambda>a b. fst b \<le> fst a) (sorted_reverse keyed)"
    and "filter (\<lambda>y. fst y = d) (sorted_reverse keyed) = filter (\<lambda>y. fst y = d) keyed"
proof -
  show "sorted_meetings (JArr xs) = Inr (map snd (sorted_reverse keyed))"
    using assms by (simp add: sorted_meetings_def)
  have "mset (map snd (sorted_reverse keyed)) = mset (map snd keyed)"
    by (simp add: mset_sorted_reverse)
  then show "mset (map snd (sorted_reverse keyed)) = mset xs"
    using date_keys_snd [OF assms] by simp
  show "sorted_wrt (\<lambda>a b. fst b \<le> fst a) (sorted_reverse keyed)"
    by (rule descending_sorted_reverse)
  show "filter (\<lambda>y. fst y = d) (sorted_reverse keyed) = filter (\<lambda>y. fst y = d) keyed"
    by (rule stable_sorted_reverse)
qed

text \<open>
  Claim C4 (order of the meeting list) fails on the code. The list is sorted on the date
  string itself (\<open>key=lambda x: x['date']\<close>), not on the date it stands for, although
  \<open>add_meeting\<close> and \<open>update_meeting\<close> accept the string only if it parses as
  \<open>%d/%m/%Y\<close>. With the day first, the order of the strings is not the order of the
  dates: of the two meetings of the example the list shows the one of 2 January 2024
  above the one of 1 February 2024. (The sort is stable and leaves \<open>self.meetings\<close> as
  it is: lemma \<open>sorted_meetings_keyed\<close>.)
\<close>

theorem meetings_sorted_by_date_string:
  "sorted_meetings (meetings example_state) = Inr [meeting_jan, meeting_feb]
   \<and> refresh_meetings_list (\<lambda>v. []) example_state
       = Inr [''02/01/2024 - Kickoff'', ''01/02/2024 - Planning'']
   \<and> parse_date ''02/01/2024'' = Some (2024, 1, 2)
   \<and> parse_date ''01/02/2024'' = Some (2024, 2, 1)
   \<and> earlier (2024, 1, 2) (2024, 2, 1)"
  by (simp add: example_state_eq sorted_meetings_def refresh_meetings_list_def sorted_reverse_def
        getitem_def meeting_feb_def meeting_jan_def parse_date_def number_def digit_value_def
        earlier_def)

end
